theory Spec2Isabelle
  imports Main "HOL-Library.Sublist"
begin

section \<open>Static task configuration (website/models.py)\<close>

text \<open>
  The three module-level task lists of \<^verbatim>\<open>models.py\<close>. Task identifiers are
  positive integers (\<^verbatim>\<open>PositiveIntegerField\<close>), modelled as \<open>nat\<close>.
  The comment above the lists records that tasks 3 and 20 are unimplemented.
\<close>

definition TASK_TRAINING :: "nat list" where
  "TASK_TRAINING = [21, 22]"

definition TASK_BLOCK_I :: "nat list" where
  "TASK_BLOCK_I = [5, 10, 6, 9, 19, 1, 18, 17, 16]"

definition TASK_BLOCK_II :: "nat list" where
  "TASK_BLOCK_II = [8, 7, 2, 14, 12, 4, 13, 15, 11]"

section \<open>Exceptions\<close>

text \<open>Every Python exception the modelled code can raise is a value of this type.\<close>

datatype error =
    ValueError
  | AssertionError
  | AttributeError string  \<comment> \<open>the missing attribute, or the message of an explicit raise\<close>
  | IndexError
  | ObjectDoesNotExist
  | MultipleObjectsReturned
  | FileNotFoundError
  | KeyError

section \<open>The data model (website/models.py)\<close>

text \<open>
  Text columns are \<open>string\<close>; in particular \<open>status\<close> and the task type are free
  text in the source, compared against string literals, and stay strings here.
  Timestamps are seconds on an abstract clock; the current time is an argument of every
  operation that reads \<^verbatim>\<open>timezone.now()\<close>.
\<close>

type_synonym timestamp = nat

definition DEFAULT_END_TIME :: timestamp where
  \<comment> \<open>the column default \<^verbatim>\<open>'1111-11-11 00:00:00'\<close>\<close>
  "DEFAULT_END_TIME = 0"

record User =
  access_code :: string
  first_name :: string
  last_name :: string
  group :: string

record Task =
  task_id :: nat
  task_type :: string
  description :: string
  file_attributes :: string
  initial_filesystem :: string
  goal_filesystem :: string
  stdout :: string
  duration :: nat
  goal :: "string option"

text \<open>
  \<open>goal\<close> is not a column declared by \<^verbatim>\<open>models.py\<close>: it is the attribute
  \<^verbatim>\<open>task.goal\<close> that \<^verbatim>\<open>views.py\<close> reads (the goal filesystem, or the expected output
  of a \<^verbatim>\<open>stdout\<close> task); \<open>None\<close> stands for a task without it, where the read raises
  \<^verbatim>\<open>AttributeError\<close>.
\<close>

record Container =
  container_id :: string
  filesystem_name :: string
  port :: int

text \<open>
  A study session. Two attributes are not columns declared by the class in
  \<^verbatim>\<open>models.py\<close>:
  \<^item> \<open>close_time\<close> is the Python attribute that \<^verbatim>\<open>StudySession.close\<close> assigns
    (the declared column is \<open>end_time\<close>); it lives on the object only and a saved row
    never carries it;
  \<^item> \<open>container\<close> is the attribute that \<^verbatim>\<open>views.py\<close> stores when it creates a study
    session and reads on later requests; \<open>None\<close> stands for a session without it, where
    reading \<^verbatim>\<open>session.container.destroy\<close> raises \<^verbatim>\<open>AttributeError\<close>. No method of
    \<^verbatim>\<open>models.py\<close> touches it, and the study sessions that the resumption of
    \<^verbatim>\<open>user_login\<close> loads with a query never carry it (see \<open>running_sessions\<close>).
\<close>

record StudySession =
  user :: User
  session_id :: string
  creation_time :: timestamp
  end_time :: timestamp
  total_num_training_tasks :: nat
  total_num_tasks :: nat
  current_task_session_id :: string
  num_tasks_completed :: nat
  filesystem_change_seen :: bool
  file_search_seen :: bool
  standard_output_seen :: bool
  status :: string
  close_time :: "timestamp option"
  container :: "Container option"

record TaskSession =
  study_session :: string
  study_session_stage :: string
  ts_session_id :: string
  ts_container :: "Container option"
  is_training :: bool
  task :: Task
  start_time :: timestamp
  ts_end_time :: timestamp
  ts_status :: string

text \<open>Column defaults of \<^verbatim>\<open>StudySession\<close>.\<close>

definition default_total_num_training_tasks :: nat where
  "default_total_num_training_tasks = length TASK_TRAINING"

definition default_total_num_tasks :: nat where
  "default_total_num_tasks = length TASK_BLOCK_I + length TASK_BLOCK_II"

section \<open>Derived properties of a study session\<close>

definition task_block_order :: "StudySession \<Rightarrow> string" where
  "task_block_order self =
     (if group (user self) \<in> set [''group1'', ''group4''] then ''0'' else ''1'')"

definition switch_point :: "StudySession \<Rightarrow> nat" where
  "switch_point self =
     (if group (user self) \<in> set [''group1'', ''group4'']
      then length TASK_BLOCK_I else length TASK_BLOCK_II)"

definition treatment_order :: "StudySession \<Rightarrow> string" where
  "treatment_order self =
     (if group (user self) \<in> set [''group1'', ''group3''] then ''0'' else ''1'')"

definition WEBSITE_DEVELOP :: bool where
  "WEBSITE_DEVELOP = True"

definition stage :: "StudySession \<Rightarrow> error + string" where
  "stage self =
     (if \<not> WEBSITE_DEVELOP \<and> length TASK_BLOCK_I \<noteq> length TASK_BLOCK_II
        then Inl AssertionError
      else if \<not> num_tasks_completed self \<le> total_num_tasks self
        then Inl AssertionError
      else if status self \<in> set [''pre-consent'', ''pre-training'', ''training'']
        then Inr ''O''
      else if status self = ''running'' then
        (if num_tasks_completed self < switch_point self then Inr ''I''
         else if num_tasks_completed self < total_num_tasks self then Inr ''II''
         else Inr ''III'')
      else Inl ValueError)"

section \<open>The repository and the sandbox runtime\<close>

text \<open>
  The state every operation runs against: the persisted rows of each model class (an
  \<^verbatim>\<open>ActionHistory\<close> row being its task session's identifier, the action text and the
  time), the containers that exist in the Docker daemon and the virtual filesystems that exist on the
  host. A row list keeps insertion order; \<open>session_id\<close> is the primary key of both
  session tables.
\<close>

record system =
  study_session_rows :: "StudySession list"
  task_session_rows :: "TaskSession list"
  container_rows :: "Container list"
  task_rows :: "Task list"
  action_rows :: "(string \<times> string \<times> timestamp) list"
  docker_containers :: "string set"
  filesystems :: "string set"

definition upsert :: "('a \<Rightarrow> string) \<Rightarrow> 'a \<Rightarrow> 'a list \<Rightarrow> 'a list" where
  \<comment> \<open>Django's \<^verbatim>\<open>save()\<close>: UPDATE the row with this primary key, INSERT when there is none\<close>
  "upsert pk row rows =
     (if pk row \<in> set (map pk rows)
      then map (\<lambda>r. if pk r = pk row then row else r) rows
      else rows @ [row])"

definition StudySession_save :: "StudySession \<Rightarrow> system \<Rightarrow> system" where
  \<comment> \<open>only declared columns are written: \<open>close_time\<close> is not one of them\<close>
  "StudySession_save self sys =
     sys\<lparr>study_session_rows :=
           upsert session_id (self\<lparr>close_time := None\<rparr>) (study_session_rows sys)\<rparr>"

definition TaskSession_save :: "TaskSession \<Rightarrow> system \<Rightarrow> system" where
  "TaskSession_save self sys =
     sys\<lparr>task_session_rows := upsert ts_session_id self (task_session_rows sys)\<rparr>"

definition get_study_session :: "system \<Rightarrow> string \<Rightarrow> StudySession option" where
  \<comment> \<open>\<^verbatim>\<open>StudySession.objects.get(session_id=...)\<close>, \<open>None\<close> for \<^verbatim>\<open>DoesNotExist\<close>\<close>
  "get_study_session sys sid = find (\<lambda>r. session_id r = sid) (study_session_rows sys)"

definition get_task_session :: "system \<Rightarrow> string \<Rightarrow> TaskSession option" where
  \<comment> \<open>\<^verbatim>\<open>TaskSession.objects.get(session_id=...)\<close>, \<open>None\<close> for \<^verbatim>\<open>DoesNotExist\<close>\<close>
  "get_task_session sys sid = find (\<lambda>r. ts_session_id r = sid) (task_session_rows sys)"

subsection \<open>The external commands\<close>

definition docker_rm :: "string \<Rightarrow> system \<Rightarrow> system" where
  \<comment> \<open>Modelled from the spec: the sandbox runtime's \<^verbatim>\<open>remove(handle)\<close>, run as
     \<^verbatim>\<open>docker rm -f\<close> through \<^verbatim>\<open>subprocess.run\<close> without \<^verbatim>\<open>check\<close>: a missing
     container makes the command fail, which the caller never looks at.\<close>
  "docker_rm cid sys = sys\<lparr>docker_containers := docker_containers sys - {cid}\<rparr>"

definition delete_filesystem :: "string \<Rightarrow> system \<Rightarrow> system" where
  \<comment> \<open>Modelled from the spec: \<^verbatim>\<open>delete_filesystem.bash\<close>, the filesystem-provisioning
     collaborator's \<^verbatim>\<open>deleteRoot(name)\<close>; its exit status is never looked at either.\<close>
  "delete_filesystem name sys = sys\<lparr>filesystems := filesystems sys - {name}\<rparr>"

definition make_filesystem :: "string \<Rightarrow> system \<Rightarrow> system" where
  \<comment> \<open>Modelled from the spec: \<^verbatim>\<open>make_filesystem.bash\<close>, the collaborator's
     \<^verbatim>\<open>makeRoot(name)\<close>.\<close>
  "make_filesystem name sys = sys\<lparr>filesystems := insert name (filesystems sys)\<rparr>"

definition docker_create :: "string \<Rightarrow> system \<Rightarrow> system" where
  \<comment> \<open>Modelled from the spec: the runtime's \<^verbatim>\<open>create(image, volumeBindings,
     portBindings)\<close>; the handle it answers with is an argument.\<close>
  "docker_create cid sys = sys\<lparr>docker_containers := insert cid (docker_containers sys)\<rparr>"

text \<open>
  What the runtime answers during one provisioning: the identifier of the container it
  created, whether \<^verbatim>\<open>os.utime\<close> finds the files that tasks 7 and 8 backdate, and the host
  port it reports (\<open>None\<close> when the inspected port table has no entry).
\<close>

record runtime_reply =
  reply_container_id :: string
  reply_utime_ok :: bool
  reply_host_port :: "int option"

subsection \<open>Container\<close>

definition Container_destroy :: "Container \<Rightarrow> system \<Rightarrow> system" where
  \<comment> \<open>\<^verbatim>\<open>Container.destroy\<close>; the row is kept, \<^verbatim>\<open>self.delete()\<close> being commented out\<close>
  "Container_destroy self sys =
     delete_filesystem (filesystem_name self) (docker_rm (container_id self) sys)"

definition create_container ::
    "string \<Rightarrow> Task \<Rightarrow> runtime_reply \<Rightarrow> system \<Rightarrow> (error + Container) \<times> system" where
  "create_container fs_name tsk reply sys =
     (let sys1 = make_filesystem fs_name sys;
          cid = reply_container_id reply;
          sys2 = docker_create cid sys1
      in if (task_id tsk = 7 \<or> task_id tsk = 8) \<and> \<not> reply_utime_ok reply
           then (Inl FileNotFoundError, sys2)
         else
           (case reply_host_port reply of
              None \<Rightarrow> (Inl KeyError, sys2)
            | Some p \<Rightarrow>
                (let c = \<lparr>container_id = cid, filesystem_name = fs_name, port = p\<rparr>
                 in (Inr c, sys2\<lparr>container_rows := container_rows sys2 @ [c]\<rparr>))))"

section \<open>StudySession operations\<close>

definition StudySession_close ::
    "StudySession \<Rightarrow> string \<Rightarrow> timestamp \<Rightarrow> system \<Rightarrow> StudySession \<times> system" where
  "StudySession_close self reason_for_close now sys =
     (if status self = ''running'' \<or> status self = ''paused'' then
        (let self' = self\<lparr>current_task_session_id := '''',
                            close_time := Some now,
                            status := reason_for_close\<rparr>
         in (self', StudySession_save self' sys))
      else (self, sys))"

definition inc_num_tasks_completed :: "StudySession \<Rightarrow> system \<Rightarrow> StudySession \<times> system" where
  "inc_num_tasks_completed self sys =
     (let self1 = self\<lparr>num_tasks_completed := num_tasks_completed self + 1\<rparr>;
          self2 = (if status self1 = ''training'' \<and>
                      num_tasks_completed self1 = total_num_training_tasks self1
                   then self1\<lparr>num_tasks_completed := 0, status := ''running''\<rparr>
                   else self1)
      in (self2, StudySession_save self2 sys))"

definition update_filesystem_change_seen ::
    "StudySession \<Rightarrow> system \<Rightarrow> StudySession \<times> system" where
  "update_filesystem_change_seen self sys =
     (let self' = self\<lparr>filesystem_change_seen := True\<rparr> in (self', StudySession_save self' sys))"

definition update_file_search_seen :: "StudySession \<Rightarrow> system \<Rightarrow> StudySession \<times> system" where
  "update_file_search_seen self sys =
     (let self' = self\<lparr>file_search_seen := True\<rparr> in (self', StudySession_save self' sys))"

definition update_standard_output_seen ::
    "StudySession \<Rightarrow> system \<Rightarrow> StudySession \<times> system" where
  "update_standard_output_seen self sys =
     (let self' = self\<lparr>standard_output_seen := True\<rparr> in (self', StudySession_save self' sys))"

section \<open>TaskSession operations\<close>

text \<open>
  \<^verbatim>\<open>self.study_session\<close> follows the foreign key: the row is read from the repository
  when the attribute is first used, which raises \<^verbatim>\<open>DoesNotExist\<close> when there is none.
  An operation that can raise returns the exception (if any) together with the object
  and the system as the exception leaves them. The container of a task session is
  optional, as the class's docstring has it ("None if no container is associated") and as
  the column default \<^verbatim>\<open>None\<close> makes it on creation; calling \<^verbatim>\<open>destroy\<close> on \<open>None\<close>
  raises \<^verbatim>\<open>AttributeError\<close>.
\<close>

definition see_standard_output :: "TaskSession \<Rightarrow> system \<Rightarrow> error + system" where
  \<comment> \<open>the first \<^verbatim>\<open>if\<close> of \<^verbatim>\<open>TaskSession.close\<close>\<close>
  "see_standard_output self sys =
     (if task_type (task self) = ''stdout'' then
        (case get_study_session sys (study_session self) of
           None \<Rightarrow> Inl ObjectDoesNotExist
         | Some ss \<Rightarrow>
             if \<not> standard_output_seen ss
             then Inr (snd (update_standard_output_seen ss sys)) else Inr sys)
      else Inr sys)"

definition see_file_search :: "TaskSession \<Rightarrow> system \<Rightarrow> error + system" where
  \<comment> \<open>the second \<^verbatim>\<open>if\<close> of \<^verbatim>\<open>TaskSession.close\<close>\<close>
  "see_file_search self sys =
     (if task_type (task self) = ''file_search'' then
        (case get_study_session sys (study_session self) of
           None \<Rightarrow> Inl ObjectDoesNotExist
         | Some ss \<Rightarrow>
             if \<not> file_search_seen ss
             then Inr (snd (update_file_search_seen ss sys)) else Inr sys)
      else Inr sys)"

definition see_filesystem_change :: "TaskSession \<Rightarrow> system \<Rightarrow> error + system" where
  \<comment> \<open>the third \<^verbatim>\<open>if\<close> of \<^verbatim>\<open>TaskSession.close\<close>\<close>
  "see_filesystem_change self sys =
     (if task_type (task self) = ''filesystem_change'' then
        (case get_study_session sys (study_session self) of
           None \<Rightarrow> Inl ObjectDoesNotExist
         | Some ss \<Rightarrow>
             if \<not> filesystem_change_seen ss
             then Inr (snd (update_filesystem_change_seen ss sys)) else Inr sys)
      else Inr sys)"

definition TaskSession_close ::
    "TaskSession \<Rightarrow> string \<Rightarrow> timestamp \<Rightarrow> system \<Rightarrow> error option \<times> TaskSession \<times> system" where
  "TaskSession_close self reason_for_close now sys =
     (case see_standard_output self sys of
        Inl e \<Rightarrow> (Some e, self, sys)
      | Inr sys1 \<Rightarrow>
     (case see_file_search self sys1 of
        Inl e \<Rightarrow> (Some e, self, sys1)
      | Inr sys2 \<Rightarrow>
     (case see_filesystem_change self sys2 of
        Inl e \<Rightarrow> (Some e, self, sys2)
      | Inr sys3 \<Rightarrow>
     (let self1 = self\<lparr>ts_end_time := now\<rparr>
      in case ts_container self1 of
           None \<Rightarrow> (Some (AttributeError ''destroy''), self1, sys3)
         | Some c \<Rightarrow>
             (let sys4 = Container_destroy c sys3;
                  self2 = self1\<lparr>ts_status := reason_for_close\<rparr>
              in (None, self2, TaskSession_save self2 sys4))))))"

definition destroy_container ::
    "TaskSession \<Rightarrow> system \<Rightarrow> error option \<times> TaskSession \<times> system" where
  "destroy_container self sys =
     (case ts_container self of
        None \<Rightarrow> (Some (AttributeError ''destroy''), self, sys)
      | Some c \<Rightarrow> (None, self\<lparr>ts_container := None\<rparr>, Container_destroy c sys))"

definition create_new_container ::
    "TaskSession \<Rightarrow> runtime_reply \<Rightarrow> system \<Rightarrow> error option \<times> TaskSession \<times> system" where
  "create_new_container self reply sys =
     (case (if ts_container self \<noteq> None then destroy_container self sys
            else (None, self, sys)) of
        (Some e, self1, sys1) \<Rightarrow> (Some e, self1, sys1)
      | (None, self1, sys1) \<Rightarrow>
          (case create_container (ts_session_id self1) (task self1) reply sys1 of
             (Inl e, sys2) \<Rightarrow> (Some e, self1, sys2)
           | (Inr c, sys2) \<Rightarrow>
               (let self2 = self1\<lparr>ts_container := Some c\<rparr>
                in (None, self2, TaskSession_save self2 sys2))))"

definition tour_standard_output :: "StudySession \<Rightarrow> string option" where
  \<comment> \<open>the body of the first \<^verbatim>\<open>if\<close> of \<^verbatim>\<open>page_tour\<close>; the other two follow\<close>
  "tour_standard_output ss =
     (if \<not> standard_output_seen ss then
        (if status ss = ''training'' \<and> num_tasks_completed ss = 0
         then Some ''init_standard_output'' else Some ''first_standard_output'')
      else None)"

definition tour_file_search :: "StudySession \<Rightarrow> string option" where
  "tour_file_search ss =
     (if \<not> file_search_seen ss then
        (if status ss = ''training'' \<and> num_tasks_completed ss = 0
         then Some ''init_file_search'' else Some ''first_file_search'')
      else None)"

definition tour_filesystem_change :: "StudySession \<Rightarrow> string option" where
  "tour_filesystem_change ss =
     (if \<not> filesystem_change_seen ss then
        (if status ss = ''training'' \<and> num_tasks_completed ss = 0
         then Some ''init_filesystem_change'' else Some ''first_filesystem_change'')
      else None)"

definition page_tour :: "TaskSession \<Rightarrow> system \<Rightarrow> error + string option" where
  \<comment> \<open>the three \<^verbatim>\<open>if\<close> blocks in the source's order; a block whose type test fails
     leaves \<^verbatim>\<open>page_tour\<close> as it is and does not read the study session\<close>
  "page_tour self sys =
     (let ty = task_type (task self);
          related = get_study_session sys (study_session self)
      in if ty = ''stdout'' then
           (case related of None \<Rightarrow> Inl ObjectDoesNotExist
            | Some ss \<Rightarrow> Inr (tour_standard_output ss))
         else if ty = ''file_search'' then
           (case related of None \<Rightarrow> Inl ObjectDoesNotExist
            | Some ss \<Rightarrow> Inr (tour_file_search ss))
         else if ty = ''filesystem_change'' then
           (case related of None \<Rightarrow> Inl ObjectDoesNotExist
            | Some ss \<Rightarrow> Inr (tour_filesystem_change ss))
         else Inr None)"

section \<open>The views (website/views.py)\<close>

subsection \<open>Python string helpers\<close>

fun split_lines :: "string \<Rightarrow> string list" where
  \<comment> \<open>\<^verbatim>\<open>s.split('\n')\<close>: one more piece than there are newlines, never empty\<close>
  "split_lines [] = [[]]"
| "split_lines (c # cs) =
     (if c = CHR 0x0A then [] # split_lines cs
      else (case split_lines cs of
              [] \<Rightarrow> [[c]]
            | l # ls \<Rightarrow> (c # l) # ls))"

fun py_in :: "string \<Rightarrow> string \<Rightarrow> bool" where
  \<comment> \<open>\<^verbatim>\<open>sub in s\<close> on strings: \<open>sub\<close> occurs in \<open>s\<close> as a contiguous piece\<close>
  "py_in sub [] = (sub = [])"
| "py_in sub (c # cs) = (prefix sub (c # cs) \<or> py_in sub cs)"

definition last_but_one :: "'a list \<Rightarrow> error + 'a" where
  \<comment> \<open>\<^verbatim>\<open>xs[-2]\<close>, which raises \<^verbatim>\<open>IndexError\<close> on fewer than two elements\<close>
  "last_but_one xs =
     (if length xs < 2 then Inl IndexError else Inr (xs ! (length xs - 2)))"

subsection \<open>Task scheduling\<close>

definition pick_task_id :: "nat \<Rightarrow> error + nat" where
  \<comment> \<open>the index arithmetic of \<^verbatim>\<open>pick_task\<close>; \<^verbatim>\<open>TASK_BLOCK_I\<close> is a list, so the
     branch for \<^verbatim>\<open>TASK_BLOCK_I is None\<close> is never taken\<close>
  "pick_task_id num_completed =
     (if num_completed < length TASK_BLOCK_I then Inr (TASK_BLOCK_I ! num_completed)
      else if num_completed - length TASK_BLOCK_I < length TASK_BLOCK_II
        then Inr (TASK_BLOCK_II ! (num_completed - length TASK_BLOCK_I))
      else Inl IndexError)"

definition Task_objects_get :: "system \<Rightarrow> nat \<Rightarrow> error + Task" where
  \<comment> \<open>\<^verbatim>\<open>Task.objects.get(task_id=...)\<close>; \<open>task_id\<close> is not declared unique\<close>
  "Task_objects_get sys tid =
     (case filter (\<lambda>t. task_id t = tid) (task_rows sys) of
        [] \<Rightarrow> Inl ObjectDoesNotExist
      | [t] \<Rightarrow> Inr t
      | _ \<Rightarrow> Inl MultipleObjectsReturned)"

definition pick_task :: "system \<Rightarrow> nat \<Rightarrow> error + Task" where
  "pick_task sys num_completed =
     (case pick_task_id num_completed of
        Inl e \<Rightarrow> Inl e
      | Inr tid \<Rightarrow> Task_objects_get sys tid)"

definition TaskSession_objects_create ::
    "string \<Rightarrow> string \<Rightarrow> Task \<Rightarrow> timestamp \<Rightarrow> string \<Rightarrow> system \<Rightarrow> TaskSession \<times> system" where
  \<comment> \<open>the call both \<^verbatim>\<open>go_to_next_task\<close> and \<^verbatim>\<open>user_login\<close> make: five columns given,
     the others at their declared defaults\<close>
  "TaskSession_objects_create ss_id new_id tsk now st sys =
     (let row = \<lparr>study_session = ss_id, study_session_stage = '''',
                 ts_session_id = new_id, ts_container = None, is_training = False,
                 task = tsk, start_time = now, ts_end_time = DEFAULT_END_TIME,
                 ts_status = st\<rparr>
      in (row, sys\<lparr>task_session_rows := task_session_rows sys @ [row]\<rparr>))"

definition first_task_session ::
    "StudySession \<Rightarrow> string \<Rightarrow> timestamp \<Rightarrow> system \<Rightarrow> (error + TaskSession) \<times> system" where
  \<comment> \<open>\<^verbatim>\<open>user_login\<close>, "initialize the first task session" of a study session just created\<close>
  "first_task_session session init_task_session_id now sys =
     (case pick_task sys 0 of
        Inl e \<Rightarrow> (Inl e, sys)
      | Inr tsk \<Rightarrow>
          (case TaskSession_objects_create (session_id session) init_task_session_id tsk now
                  ''running'' sys of
             (row, sys') \<Rightarrow> (Inr row, sys')))"

subsection \<open>Completion check\<close>

text \<open>
  \<^verbatim>\<open>on_command_execution\<close>. The functions of \<^verbatim>\<open>filesystem.py\<close> it calls
  (\<^verbatim>\<open>disk_2_dict\<close>, \<^verbatim>\<open>filesystem_diff\<close>, \<^verbatim>\<open>extract_path\<close>,
  \<^verbatim>\<open>annotate_selected_path\<close>) are not part of the sources at hand: the \<^verbatim>\<open>tag\<close> of the
  diff they produce is the argument \<open>diff_tag\<close> (true when the trees differ), and they
  and \<^verbatim>\<open>json.loads\<close> are taken to return. The answer is the \<^verbatim>\<open>status\<close> of the JSON response.
\<close>

definition on_command_execution ::
    "TaskSession \<Rightarrow> string \<Rightarrow> bool \<Rightarrow> timestamp \<Rightarrow> system \<Rightarrow> (error + string) \<times> system" where
  "on_command_execution task_session stdout_text diff_tag now sys =
     (let tsk = task task_session;
          sys1 = sys\<lparr>action_rows :=
                   action_rows sys @ [(ts_session_id task_session, stdout_text, now)]\<rparr>;
          stdout_lines = split_lines stdout_text
      in case get_study_session sys1 (study_session task_session) of
           None \<Rightarrow> (Inl ObjectDoesNotExist, sys1)
         | Some ss \<Rightarrow>
         (case container ss of
           None \<Rightarrow> (Inl (AttributeError ''container''), sys1)
         | Some c \<Rightarrow>
         (case (if task_type tsk = ''stdout'' then Some (initial_filesystem tsk)
                else goal tsk) of
           None \<Rightarrow> (Inl (AttributeError ''goal''), sys1)
         | Some g \<Rightarrow>
             if task_type tsk = ''stdout'' then
               (case goal tsk of
                  None \<Rightarrow> (Inl (AttributeError ''goal''), sys1)
                | Some expected \<Rightarrow>
                    (case last_but_one stdout_lines of
                       Inl e \<Rightarrow> (Inl e, sys1)
                     | Inr line \<Rightarrow>
                         if py_in expected line then (Inr ''TASK_COMPLETED'', sys1)
                         else (Inr ''SUCCESS'', sys1)))
             else if task_type tsk = ''filesearch'' \<or> task_type tsk = ''filesystem'' then
               (if \<not> diff_tag then (Inr ''TASK_COMPLETED'', sys1)
                else (Inr ''SUCCESS'', sys1))
             else (Inl (AttributeError ''Unrecognized task type''), sys1))))"

subsection \<open>Closing and resuming study sessions\<close>

definition close_study_session ::
    "StudySession \<Rightarrow> string \<Rightarrow> system \<Rightarrow> error option \<times> StudySession \<times> system" where
  "close_study_session session reason_for_close sys =
     (if status session = ''running'' \<or> status session = ''paused'' then
        (let session' = session\<lparr>current_task_session_id := '''',
                                  status := reason_for_close\<rparr>;
             sys1 = StudySession_save session' sys
         in case container session' of
              None \<Rightarrow> (Some (AttributeError ''container''), session', sys1)
            | Some c \<Rightarrow> (None, session', Container_destroy c sys1))
      else (None, session, sys))"

definition running_sessions :: "User \<Rightarrow> system \<Rightarrow> StudySession list" where
  \<comment> \<open>\<^verbatim>\<open>StudySession.objects.filter(user=user, status='running')
     .order_by('creation_time')\<close>; the objects the query builds have the columns that
     \<^verbatim>\<open>models.py\<close> declares, so none of them carries a \<open>container\<close>\<close>
  "running_sessions u sys =
     map (\<lambda>s. s\<lparr>container := None\<rparr>)
       (sort_key creation_time
          (filter (\<lambda>s. user s = u \<and> status s = ''running'') (study_session_rows sys)))"

fun check_sessions ::
    "StudySession list \<Rightarrow> StudySession list \<Rightarrow> system
       \<Rightarrow> (error + StudySession list) \<times> system" where
  \<comment> \<open>the first loop of \<^verbatim>\<open>user_login\<close>; \<^verbatim>\<open>ObjectDoesNotExist\<close> is the only exception
     it catches\<close>
  "check_sessions [] healthy_sessions sys = (Inr healthy_sessions, sys)"
| "check_sessions (session # rest) healthy_sessions sys =
     (case get_task_session sys (current_task_session_id session) of
        Some task_session \<Rightarrow>
          if ts_status task_session = ''running'' \<or> ts_status task_session = ''paused''
          then check_sessions rest (healthy_sessions @ [session]) sys
          else (case close_study_session session ''closed_with_error'' sys of
                  (Some e, _, sys') \<Rightarrow> (Inl e, sys')
                | (None, _, sys') \<Rightarrow> check_sessions rest healthy_sessions sys')
      | None \<Rightarrow>
          (case close_study_session session ''closed_with_error'' sys of
             (Some e, _, sys') \<Rightarrow> (Inl e, sys')
           | (None, _, sys') \<Rightarrow> check_sessions rest healthy_sessions sys'))"

fun close_sessions :: "StudySession list \<Rightarrow> system \<Rightarrow> error option \<times> system" where
  \<comment> \<open>the second loop: \<^verbatim>\<open>for session in existing_sessions[:-1]\<close>\<close>
  "close_sessions [] sys = (None, sys)"
| "close_sessions (session # rest) sys =
     (case close_study_session session ''closed_with_error'' sys of
        (Some e, _, sys') \<Rightarrow> (Some e, sys')
      | (None, _, sys') \<Rightarrow> close_sessions rest sys')"

text \<open>
  What \<^verbatim>\<open>user_login\<close> answers when \<^verbatim>\<open>check_existing_session\<close> is \<^verbatim>\<open>"true"\<close>: the
  response \<^verbatim>\<open>RUNNING_STUDY_SESSION_FOUND\<close> with the two cookies it sets, or the flag
  \<^verbatim>\<open>no_existing_session\<close> with which it goes on to register a new study session.
\<close>

datatype resumption =
    RUNNING_STUDY_SESSION_FOUND string string  \<comment> \<open>cookies \<open>session_id\<close>, \<open>task_session_id\<close>\<close>
  | NO_EXISTING_SESSION

definition check_existing_session ::
    "User \<Rightarrow> system \<Rightarrow> (error + resumption) \<times> system" where
  "check_existing_session u sys =
     (case check_sessions (running_sessions u sys) [] sys of
        (Inl e, sys1) \<Rightarrow> (Inl e, sys1)
      | (Inr healthy_sessions, sys1) \<Rightarrow>
          if healthy_sessions \<noteq> [] then
            (case close_sessions (butlast healthy_sessions) sys1 of
               (Some e, sys2) \<Rightarrow> (Inl e, sys2)
             | (None, sys2) \<Rightarrow>
                 (let session = last healthy_sessions
                  in (Inr (RUNNING_STUDY_SESSION_FOUND (session_id session)
                             (current_task_session_id session)), sys2)))
          else (Inr NO_EXISTING_SESSION, sys1))"

section \<open>Concrete data\<close>

text \<open>
  Rows and a system used to run the operations on concrete inputs. A study-session row
  is built the way \<^verbatim>\<open>StudySession.objects.create\<close> builds it: the given columns, the
  others at their declared defaults.
\<close>

definition StudySession_row ::
    "User \<Rightarrow> string \<Rightarrow> Container option \<Rightarrow> timestamp \<Rightarrow> string \<Rightarrow> string \<Rightarrow> StudySession" where
  "StudySession_row u sid c t cur st =
     \<lparr>user = u, session_id = sid, creation_time = t, end_time = DEFAULT_END_TIME,
      total_num_training_tasks = default_total_num_training_tasks,
      total_num_tasks = default_total_num_tasks,
      current_task_session_id = cur, num_tasks_completed = 0,
      filesystem_change_seen = False, file_search_seen = False,
      standard_output_seen = False, status = st, close_time = None, container = c\<rparr>"

definition Task_row :: "nat \<Rightarrow> string \<Rightarrow> string option \<Rightarrow> Task" where
  "Task_row tid ty g =
     \<lparr>task_id = tid, task_type = ty, description = ''a task'', file_attributes = '''',
      initial_filesystem = '''', goal_filesystem = '''', stdout = '''', duration = 300,
      goal = g\<rparr>"

definition alice :: User where
  "alice = \<lparr>access_code = ''alice-a'', first_name = ''Alice'', last_name = ''A'',
            group = ''group1''\<rparr>"

definition carol :: User where
  "carol = \<lparr>access_code = ''carol-c'', first_name = ''Carol'', last_name = ''C'',
            group = ''group3''\<rparr>"

definition box1 :: Container where
  "box1 = \<lparr>container_id = ''c1'', filesystem_name = ''fs1'', port = 32768\<rparr>"

definition box2 :: Container where
  "box2 = \<lparr>container_id = ''c2'', filesystem_name = ''fs2'', port = 32769\<rparr>"

definition empty_system :: system where
  "empty_system =
     \<lparr>study_session_rows = [], task_session_rows = [], container_rows = [],
      task_rows = [], action_rows = [], docker_containers = {}, filesystems = {}\<rparr>"

definition stdout_task :: Task where
  "stdout_task = Task_row 5 ''stdout'' (Some ''done'')"

definition search_task :: Task where
  "search_task = Task_row 10 ''file_search'' (Some ''{}'')"

definition session1 :: StudySession where
  "session1 = StudySession_row alice ''S1'' (Some box1) 10 ''S1/task-1'' ''running''"

definition task_session1 :: TaskSession where
  "task_session1 =
     \<lparr>study_session = ''S1'', study_session_stage = ''I'', ts_session_id = ''S1/task-1'',
      ts_container = Some box1, is_training = False, task = stdout_task, start_time = 10,
      ts_end_time = DEFAULT_END_TIME, ts_status = ''running''\<rparr>"

definition system1 :: system where
  "system1 =
     \<lparr>study_session_rows = [session1], task_session_rows = [task_session1],
      container_rows = [box1], task_rows = [stdout_task, search_task], action_rows = [],
      docker_containers = {''c1''}, filesystems = {''fs1''}\<rparr>"

definition session2 :: StudySession where
  "session2 = StudySession_row carol ''S2'' None 30 ''S2-training-task-1'' ''training''"

definition task_session2 :: TaskSession where
  "task_session2 =
     \<lparr>study_session = ''S2'', study_session_stage = ''O'',
      ts_session_id = ''S2-training-task-1'', ts_container = None, is_training = True,
      task = search_task, start_time = 30, ts_end_time = DEFAULT_END_TIME,
      ts_status = ''running''\<rparr>"

definition system2 :: system where
  "system2 =
     \<lparr>study_session_rows = [session2], task_session_rows = [task_session2],
      container_rows = [], task_rows = [stdout_task, search_task], action_rows = [],
      docker_containers = {}, filesystems = {}\<rparr>"

definition reply1 :: runtime_reply where
  "reply1 = \<lparr>reply_container_id = ''c7'', reply_utime_ok = True,
             reply_host_port = Some 40000\<rparr>"

definition reply2 :: runtime_reply where
  "reply2 = \<lparr>reply_container_id = ''c8'', reply_utime_ok = True,
             reply_host_port = Some 40001\<rparr>"

definition task_session3 :: TaskSession where
  "task_session3 = task_session1\<lparr>ts_session_id := ''S1/task-2'', task := search_task\<rparr>"

definition terminal_output :: string where
  \<comment> \<open>three lines: the command, its output, the next prompt\<close>
  "terminal_output = ''cat log'' @ [CHR 0x0A] @ ''all done'' @ [CHR 0x0A] @ ''me@box:~$ ''"

definition stale_session :: StudySession where
  "stale_session = StudySession_row alice ''A1'' None 10 ''A1/task-3'' ''running''"

definition live_session :: StudySession where
  "live_session = StudySession_row alice ''A2'' None 20 ''A2/task-1'' ''running''"

definition late_stale_session :: StudySession where
  "late_stale_session = StudySession_row alice ''A3'' None 30 ''A3/task-2'' ''running''"

definition live_task_session :: TaskSession where
  "live_task_session =
     \<lparr>study_session = ''A2'', study_session_stage = ''I'', ts_session_id = ''A2/task-1'',
      ts_container = None, is_training = False, task = stdout_task, start_time = 20,
      ts_end_time = DEFAULT_END_TIME, ts_status = ''running''\<rparr>"

definition system3 :: system where
  \<comment> \<open>two running study sessions of one participant; the task session the earlier one
     points at is not in the repository\<close>
  "system3 =
     \<lparr>study_session_rows = [live_session, stale_session],
      task_session_rows = [live_task_session],
      container_rows = [box1, box2], task_rows = [stdout_task, search_task],
      action_rows = [], docker_containers = {''c1'', ''c2''},
      filesystems = {''fs1'', ''fs2''}\<rparr>"

definition system4 :: system where
  \<comment> \<open>as \<open>system3\<close>, but the study session with the missing task session is the later one\<close>
  "system4 = system3\<lparr>study_session_rows := [late_stale_session, live_session]\<rparr>"

definition system5 :: system where
  \<comment> \<open>one running study session, whose task session is running\<close>
  "system5 = system3\<lparr>study_session_rows := [live_session]\<rparr>"

text \<open>
  A training phase in which the two training tasks differ in type: task 21 prints to
  standard output, task 22 is a file search. \<open>training_started\<close> is the system when the
  first training task is served, \<open>training_first_closed\<close> the system after its task
  session has been closed, and \<open>training_second\<close> the study session and the system after
  the counter has been advanced, when the second training task is served.
\<close>

definition training_task_21 :: Task where
  "training_task_21 = Task_row 21 ''stdout'' (Some ''done'')"

definition training_task_22 :: Task where
  "training_task_22 = Task_row 22 ''file_search'' (Some ''{}'')"

definition training_task_session_1 :: TaskSession where
  "training_task_session_1 =
     \<lparr>study_session = ''S2'', study_session_stage = ''O'',
      ts_session_id = ''S2-training-task-1'', ts_container = Some box1, is_training = True,
      task = training_task_21, start_time = 30, ts_end_time = DEFAULT_END_TIME,
      ts_status = ''running''\<rparr>"

definition training_task_session_2 :: TaskSession where
  "training_task_session_2 =
     \<lparr>study_session = ''S2'', study_session_stage = ''O'',
      ts_session_id = ''S2-training-task-2'', ts_container = None, is_training = True,
      task = training_task_22, start_time = 50, ts_end_time = DEFAULT_END_TIME,
      ts_status = ''running''\<rparr>"

definition training_started :: system where
  "training_started =
     \<lparr>study_session_rows = [session2], task_session_rows = [training_task_session_1],
      container_rows = [box1], task_rows = [training_task_21, training_task_22],
      action_rows = [], docker_containers = {''c1''}, filesystems = {''fs1''}\<rparr>"

definition training_first_closed :: system where
  "training_first_closed =
     snd (snd (TaskSession_close training_task_session_1 ''passed'' 40 training_started))"

definition training_second :: "StudySession \<times> system" where
  "training_second =
     inc_num_tasks_completed (session2\<lparr>standard_output_seen := True\<rparr>) training_first_closed"

section \<open>Reading a row back after a save\<close>

lemma find_append_none: "find P xs = None \<Longrightarrow> find P (xs @ ys) = find P ys"
  by (induction xs) (auto split: if_splits)

lemma find_map_replace:
  "pk row \<in> set (map pk rows) \<Longrightarrow>
   find (\<lambda>r. pk r = pk row) (map (\<lambda>r. if pk r = pk row then row else r) rows) = Some row"
  by (induction rows) auto

lemma find_upsert_same: "find (\<lambda>r. pk r = pk row) (upsert pk row rows) = Some row"
proof (cases "pk row \<in> set (map pk rows)")
  case True
  then show ?thesis by (simp add: upsert_def find_map_replace)
next
  case False
  then have "find (\<lambda>r. pk r = pk row) rows = None"
    by (induction rows) auto
  with False show ?thesis by (simp add: upsert_def find_append_none)
qed

lemma find_upsert_other:
  assumes "k \<noteq> pk row"
  shows "find (\<lambda>r. pk r = k) (upsert pk row rows) = find (\<lambda>r. pk r = k) rows"
proof -
  have m: "find (\<lambda>r. pk r = k) (map (\<lambda>r. if pk r = pk row then row else r) rows)
          = find (\<lambda>r. pk r = k) rows"
    using assms by (induction rows) auto
  have "find (\<lambda>r. pk r = k) (rows @ [row]) = find (\<lambda>r. pk r = k) rows"
    using assms by (induction rows) auto
  with m show ?thesis by (simp add: upsert_def)
qed

section \<open>Task blocks and the switch point\<close>

text \<open>
  Claim C8. For every study session, whatever its participant's group, the switch point
  (the length of the block that \<open>switch_point\<close> counts for the group) plus the length of
  the other block is the default total number of scored tasks. The two blocks have no
  identifier in common and none repeated, their combined length is that total, and
  together they are exactly the identifiers 1 to 22 without the two unimplemented tasks
  (3 and 20) and the training tasks.
\<close>

theorem blocks_partition_scored_tasks:
  "switch_point self +
     (if group (user self) \<in> {''group1'', ''group4''}
      then length TASK_BLOCK_II else length TASK_BLOCK_I) = default_total_num_tasks
   \<and> distinct (TASK_BLOCK_I @ TASK_BLOCK_II)
   \<and> set TASK_BLOCK_I \<inter> set TASK_BLOCK_II = {}
   \<and> length (TASK_BLOCK_I @ TASK_BLOCK_II) = default_total_num_tasks
   \<and> set (TASK_BLOCK_I @ TASK_BLOCK_II) = {1..22} - {3, 20} - set TASK_TRAINING"
proof -
  have a: "switch_point self +
     (if group (user self) \<in> {''group1'', ''group4''}
      then length TASK_BLOCK_II else length TASK_BLOCK_I) = default_total_num_tasks"
    by (simp add: switch_point_def default_total_num_tasks_def)
  have b: "distinct (TASK_BLOCK_I @ TASK_BLOCK_II)"
    by (simp add: TASK_BLOCK_I_def TASK_BLOCK_II_def)
  have c: "set TASK_BLOCK_I \<inter> set TASK_BLOCK_II = {}"
    using b by simp
  have l: "length (TASK_BLOCK_I @ TASK_BLOCK_II) = default_total_num_tasks"
    by (simp add: default_total_num_tasks_def)
  have d: "set (TASK_BLOCK_I @ TASK_BLOCK_II) = {1..22} - {3, 20} - set TASK_TRAINING"
    unfolding TASK_BLOCK_I_def TASK_BLOCK_II_def TASK_TRAINING_def by code_simp
  from a b c l d show ?thesis by blast
qed

theorem blocks_partition_scored_tasks_witness:
  "switch_point (StudySession_row carol ''s'' None 0 '''' ''running'') = 9 \<and>
   switch_point (StudySession_row carol ''s'' None 0 '''' ''running'') + length TASK_BLOCK_I = 18"
  using blocks_partition_scored_tasks [of "StudySession_row carol ''s'' None 0 '''' ''running''"]
  by (simp add: StudySession_row_def carol_def default_total_num_tasks_def
        TASK_BLOCK_I_def TASK_BLOCK_II_def)

section \<open>The derived stage\<close>

text \<open>
  Claim C5. \<open>stage\<close> first asserts the invariant of the data model, that the completed
  count does not exceed the total number of tasks. Under that invariant: the stage is
  \<open>O\<close> in status \<open>pre-consent\<close>, \<open>pre-training\<close> or \<open>training\<close>; in status \<open>running\<close> it
  is \<open>I\<close> when the count is below the switch point, otherwise \<open>II\<close> when the count is
  below the total, otherwise (the count equals the total) \<open>III\<close>; and in status
  \<open>finished\<close>, \<open>paused\<close> or \<open>closed_with_error\<close> it raises \<^verbatim>\<open>ValueError\<close>.
\<close>

theorem stage_by_status:
  assumes "num_tasks_completed self \<le> total_num_tasks self"
  shows "(status self \<in> {''pre-consent'', ''pre-training'', ''training''}
            \<longrightarrow> stage self = Inr ''O'')
       \<and> (status self = ''running'' \<and> num_tasks_completed self < switch_point self
            \<longrightarrow> stage self = Inr ''I'')
       \<and> (status self = ''running'' \<and> \<not> num_tasks_completed self < switch_point self
              \<and> num_tasks_completed self < total_num_tasks self
            \<longrightarrow> stage self = Inr ''II'')
       \<and> (status self = ''running'' \<and> \<not> num_tasks_completed self < switch_point self
              \<and> num_tasks_completed self = total_num_tasks self
            \<longrightarrow> stage self = Inr ''III'')
       \<and> (status self \<in> {''finished'', ''paused'', ''closed_with_error''}
            \<longrightarrow> stage self = Inl ValueError)"
  using assms by (auto simp: stage_def WEBSITE_DEVELOP_def)

theorem stage_by_status_witness:
  "stage (StudySession_row alice ''s'' None 0 '''' ''training'') = Inr ''O''
   \<and> stage (StudySession_row alice ''s'' None 0 '''' ''running'') = Inr ''I''
   \<and> stage ((StudySession_row alice ''s'' None 0 '''' ''running'')\<lparr>num_tasks_completed := 9\<rparr>)
       = Inr ''II''
   \<and> stage ((StudySession_row alice ''s'' None 0 '''' ''running'')\<lparr>num_tasks_completed := 18\<rparr>)
       = Inr ''III''
   \<and> stage (StudySession_row alice ''s'' None 0 '''' ''paused'') = Inl ValueError"
  using stage_by_status [of "StudySession_row alice ''s'' None 0 '''' ''training''"]
        stage_by_status [of "StudySession_row alice ''s'' None 0 '''' ''running''"]
        stage_by_status [of "(StudySession_row alice ''s'' None 0 '''' ''running'')\<lparr>num_tasks_completed := 9\<rparr>"]
        stage_by_status [of "(StudySession_row alice ''s'' None 0 '''' ''running'')\<lparr>num_tasks_completed := 18\<rparr>"]
        stage_by_status [of "StudySession_row alice ''s'' None 0 '''' ''paused''"]
  by (simp add: StudySession_row_def alice_def default_total_num_tasks_def switch_point_def
        TASK_BLOCK_I_def TASK_BLOCK_II_def)

section \<open>Advancing the completed-task counter\<close>

text \<open>
  Claim C4, as stated, at a training session whose counter already equals the number of
  training tasks (2): the increment leaves the counter at 3, above that number, and the
  status stays \<open>training\<close>.
\<close>

theorem inc_num_tasks_completed_training_counterexample:
  "status ((StudySession_row alice ''S1'' None 10 '''' ''training'')\<lparr>num_tasks_completed := 2\<rparr>)
     = ''training''
   \<and> total_num_training_tasks
        ((StudySession_row alice ''S1'' None 10 '''' ''training'')\<lparr>num_tasks_completed := 2\<rparr>) = 2
   \<and> num_tasks_completed (fst (inc_num_tasks_completed
        ((StudySession_row alice ''S1'' None 10 '''' ''training'')\<lparr>num_tasks_completed := 2\<rparr>)
        empty_system)) = 3
   \<and> \<not> num_tasks_completed (fst (inc_num_tasks_completed
        ((StudySession_row alice ''S1'' None 10 '''' ''training'')\<lparr>num_tasks_completed := 2\<rparr>)
        empty_system))
       \<le> total_num_training_tasks (fst (inc_num_tasks_completed
        ((StudySession_row alice ''S1'' None 10 '''' ''training'')\<lparr>num_tasks_completed := 2\<rparr>)
        empty_system))
   \<and> status (fst (inc_num_tasks_completed
        ((StudySession_row alice ''S1'' None 10 '''' ''training'')\<lparr>num_tasks_completed := 2\<rparr>)
        empty_system)) = ''training''"
  by (simp add: inc_num_tasks_completed_def StudySession_row_def Let_def
        default_total_num_training_tasks_def TASK_TRAINING_def)

text \<open>
  Claim C4, amended. For every study session in status \<open>training\<close> whose counter is
  below the total number of training tasks, the increment leaves the counter no greater
  than that total: when the increment makes the counter equal the total, the counter is
  reset to zero and the status becomes \<open>running\<close>; otherwise only the counter changes
  (by one) and the status stays \<open>training\<close>. The session is saved in either case.
\<close>

theorem inc_num_tasks_completed_training:
  assumes "status self = ''training''"
    and "num_tasks_completed self < total_num_training_tasks self"
  shows "num_tasks_completed (fst (inc_num_tasks_completed self sys))
           \<le> total_num_training_tasks (fst (inc_num_tasks_completed self sys))
       \<and> fst (inc_num_tasks_completed self sys) =
           (if num_tasks_completed self + 1 = total_num_training_tasks self
            then self\<lparr>num_tasks_completed := 0, status := ''running''\<rparr>
            else self\<lparr>num_tasks_completed := num_tasks_completed self + 1\<rparr>)
       \<and> snd (inc_num_tasks_completed self sys) =
           StudySession_save (fst (inc_num_tasks_completed self sys)) sys"
  using assms by (simp add: inc_num_tasks_completed_def Let_def)

theorem inc_num_tasks_completed_training_witness:
  "fst (inc_num_tasks_completed (StudySession_row alice ''S1'' None 10 '''' ''training'')
          empty_system)
     = (StudySession_row alice ''S1'' None 10 '''' ''training'')\<lparr>num_tasks_completed := 1\<rparr>
   \<and> fst (inc_num_tasks_completed
        ((StudySession_row alice ''S1'' None 10 '''' ''training'')\<lparr>num_tasks_completed := 1\<rparr>)
          empty_system)
     = (StudySession_row alice ''S1'' None 10 '''' ''training'')\<lparr>status := ''running''\<rparr>"
  using inc_num_tasks_completed_training
          [of "StudySession_row alice ''S1'' None 10 '''' ''training''" empty_system]
        inc_num_tasks_completed_training
          [of "(StudySession_row alice ''S1'' None 10 '''' ''training'')\<lparr>num_tasks_completed := 1\<rparr>"
              empty_system]
  by (simp add: StudySession_row_def default_total_num_training_tasks_def TASK_TRAINING_def)

section \<open>Closing a study session\<close>

text \<open>
  Claim C3, as stated, at a running study session whose current task session is bound to
  a live container (the one the session itself carries): after \<open>StudySession_close\<close> the
  status is the reason given, and the container and its filesystem still exist.
\<close>

theorem StudySession_close_counterexample:
  "status session1 = ''running''
   \<and> get_task_session system1 (current_task_session_id session1) = Some task_session1
   \<and> ts_container task_session1 = Some box1
   \<and> container session1 = Some box1
   \<and> status (fst (StudySession_close session1 ''finished'' 20 system1)) = ''finished''
   \<and> container_id box1 \<in> docker_containers (snd (StudySession_close session1 ''finished'' 20 system1))
   \<and> filesystem_name box1 \<in> filesystems (snd (StudySession_close session1 ''finished'' 20 system1))"
  by (simp add: StudySession_close_def StudySession_save_def session1_def system1_def
        task_session1_def box1_def get_task_session_def StudySession_row_def Let_def)

text \<open>
  Claim C3, amended. \<open>StudySession_close\<close> changes nothing when the status is neither
  \<open>running\<close> nor \<open>paused\<close>. Otherwise it clears the current task-session pointer,
  stamps the close time on the session object and sets the status to the reason, and the
  row read back has the pointer cleared and that status. In no case does it remove a
  container or a filesystem, or touch a task session. Removing the container a study
  session carries is what the view function \<open>close_study_session\<close> does, after the same
  status test; that function stamps no close time.
\<close>

theorem StudySession_close_effect:
  "(status self \<noteq> ''running'' \<and> status self \<noteq> ''paused''
       \<longrightarrow> StudySession_close self reason now sys = (self, sys))
   \<and> (status self = ''running'' \<or> status self = ''paused''
       \<longrightarrow> fst (StudySession_close self reason now sys)
             = self\<lparr>current_task_session_id := '''', close_time := Some now, status := reason\<rparr>
         \<and> get_study_session (snd (StudySession_close self reason now sys)) (session_id self)
             = Some (self\<lparr>current_task_session_id := '''', close_time := None,
                          status := reason\<rparr>))
   \<and> docker_containers (snd (StudySession_close self reason now sys)) = docker_containers sys
   \<and> filesystems (snd (StudySession_close self reason now sys)) = filesystems sys
   \<and> task_session_rows (snd (StudySession_close self reason now sys)) = task_session_rows sys
   \<and> ((status self = ''running'' \<or> status self = ''paused'') \<and> container self = Some c
       \<longrightarrow> fst (close_study_session self reason sys) = None
         \<and> fst (snd (close_study_session self reason sys))
             = self\<lparr>current_task_session_id := '''', status := reason\<rparr>
         \<and> container_id c \<notin> docker_containers (snd (snd (close_study_session self reason sys)))
         \<and> filesystem_name c \<notin> filesystems (snd (snd (close_study_session self reason sys))))"
proof -
  have lookup: "get_study_session (StudySession_save r sys) (session_id r)
                  = Some (r\<lparr>close_time := None\<rparr>)" for r
    using find_upsert_same [of session_id "r\<lparr>close_time := None\<rparr>" "study_session_rows sys"]
    by (simp add: get_study_session_def StudySession_save_def)
  have a: "status self \<noteq> ''running'' \<and> status self \<noteq> ''paused''
       \<longrightarrow> StudySession_close self reason now sys = (self, sys)"
    by (simp add: StudySession_close_def)
  have b: "status self = ''running'' \<or> status self = ''paused''
       \<longrightarrow> fst (StudySession_close self reason now sys)
             = self\<lparr>current_task_session_id := '''', close_time := Some now, status := reason\<rparr>
         \<and> get_study_session (snd (StudySession_close self reason now sys)) (session_id self)
             = Some (self\<lparr>current_task_session_id := '''', close_time := None,
                          status := reason\<rparr>)"
    using lookup [of "self\<lparr>current_task_session_id := '''', close_time := Some now, status := reason\<rparr>"]
    by (simp add: StudySession_close_def Let_def)
  have c: "docker_containers (snd (StudySession_close self reason now sys)) = docker_containers sys
     \<and> filesystems (snd (StudySession_close self reason now sys)) = filesystems sys
     \<and> task_session_rows (snd (StudySession_close self reason now sys)) = task_session_rows sys"
    by (simp add: StudySession_close_def StudySession_save_def Let_def)
  have d: "(status self = ''running'' \<or> status self = ''paused'') \<and> container self = Some c
       \<longrightarrow> fst (close_study_session self reason sys) = None
         \<and> fst (snd (close_study_session self reason sys))
             = self\<lparr>current_task_session_id := '''', status := reason\<rparr>
         \<and> container_id c \<notin> docker_containers (snd (snd (close_study_session self reason sys)))
         \<and> filesystem_name c \<notin> filesystems (snd (snd (close_study_session self reason sys)))"
    by (simp add: close_study_session_def Let_def Container_destroy_def docker_rm_def
          delete_filesystem_def)
  from a b c d show ?thesis by blast
qed

theorem StudySession_close_effect_witness:
  "StudySession_close (StudySession_row alice ''S1'' None 10 '''' ''finished'') ''x'' 20 system1
     = (StudySession_row alice ''S1'' None 10 '''' ''finished'', system1)
   \<and> fst (StudySession_close session1 ''finished'' 20 system1)
       = session1\<lparr>current_task_session_id := '''', close_time := Some 20, status := ''finished''\<rparr>
   \<and> docker_containers (snd (StudySession_close session1 ''finished'' 20 system1)) = {''c1''}
   \<and> ''c1'' \<notin> docker_containers (snd (snd (close_study_session session1 ''finished'' system1)))"
  using StudySession_close_effect [of "StudySession_row alice ''S1'' None 10 '''' ''finished''" "''x''" 20 system1 box1]
        StudySession_close_effect [of session1 "''finished''" 20 system1 box1]
  by (simp add: session1_def StudySession_row_def system1_def box1_def)

section \<open>Page tours and closing a task session\<close>

lemma get_study_session_key: "get_study_session sys k = Some ss \<Longrightarrow> session_id ss = k"
  by (auto simp: get_study_session_def find_Some_iff)

lemma get_study_session_saved:
  "get_study_session (StudySession_save r sys) (session_id r) = Some (r\<lparr>close_time := None\<rparr>)"
  using find_upsert_same [of session_id "r\<lparr>close_time := None\<rparr>" "study_session_rows sys"]
  by (simp add: get_study_session_def StudySession_save_def)

lemma get_study_session_Container_destroy [simp]:
  "get_study_session (Container_destroy c sys) k = get_study_session sys k"
  by (simp add: get_study_session_def Container_destroy_def docker_rm_def delete_filesystem_def)

lemma get_study_session_TaskSession_save [simp]:
  "get_study_session (TaskSession_save t sys) k = get_study_session sys k"
  by (simp add: get_study_session_def TaskSession_save_def)

lemma close_marks_standard_output:
  assumes "task_type (task self) = ''stdout''"
    and "get_study_session sys (study_session self) = Some ss"
  shows "\<exists>ss'. get_study_session (snd (snd (TaskSession_close self reason now sys)))
                  (study_session self) = Some ss' \<and> standard_output_seen ss'"
proof -
  have k: "session_id ss = study_session self"
    using assms(2) by (rule get_study_session_key)
  show ?thesis
  proof (cases "standard_output_seen ss")
    case True
    with assms show ?thesis
      by (simp add: TaskSession_close_def see_standard_output_def see_file_search_def
            see_filesystem_change_def Let_def split: option.splits)
  next
    case False
    have "get_study_session (StudySession_save (ss\<lparr>standard_output_seen := True\<rparr>) sys)
            (study_session self) = Some (ss\<lparr>standard_output_seen := True, close_time := None\<rparr>)"
      using get_study_session_saved [of "ss\<lparr>standard_output_seen := True\<rparr>" sys] k by simp
    with False assms show ?thesis
      by (simp add: TaskSession_close_def see_standard_output_def see_file_search_def
            see_filesystem_change_def update_standard_output_seen_def Let_def
            split: option.splits)
  qed
qed

lemma close_marks_file_search:
  assumes "task_type (task self) = ''file_search''"
    and "get_study_session sys (study_session self) = Some ss"
  shows "\<exists>ss'. get_study_session (snd (snd (TaskSession_close self reason now sys)))
                  (study_session self) = Some ss' \<and> file_search_seen ss'"
proof -
  have k: "session_id ss = study_session self"
    using assms(2) by (rule get_study_session_key)
  show ?thesis
  proof (cases "file_search_seen ss")
    case True
    with assms show ?thesis
      by (simp add: TaskSession_close_def see_standard_output_def see_file_search_def
            see_filesystem_change_def Let_def split: option.splits)
  next
    case False
    have "get_study_session (StudySession_save (ss\<lparr>file_search_seen := True\<rparr>) sys)
            (study_session self) = Some (ss\<lparr>file_search_seen := True, close_time := None\<rparr>)"
      using get_study_session_saved [of "ss\<lparr>file_search_seen := True\<rparr>" sys] k by simp
    with False assms show ?thesis
      by (simp add: TaskSession_close_def see_standard_output_def see_file_search_def
            see_filesystem_change_def update_file_search_seen_def Let_def
            split: option.splits)
  qed
qed

lemma close_marks_filesystem_change:
  assumes "task_type (task self) = ''filesystem_change''"
    and "get_study_session sys (study_session self) = Some ss"
  shows "\<exists>ss'. get_study_session (snd (snd (TaskSession_close self reason now sys)))
                  (study_session self) = Some ss' \<and> filesystem_change_seen ss'"
proof -
  have k: "session_id ss = study_session self"
    using assms(2) by (rule get_study_session_key)
  show ?thesis
  proof (cases "filesystem_change_seen ss")
    case True
    with assms show ?thesis
      by (simp add: TaskSession_close_def see_standard_output_def see_file_search_def
            see_filesystem_change_def Let_def split: option.splits)
  next
    case False
    have "get_study_session (StudySession_save (ss\<lparr>filesystem_change_seen := True\<rparr>) sys)
            (study_session self)
            = Some (ss\<lparr>filesystem_change_seen := True, close_time := None\<rparr>)"
      using get_study_session_saved [of "ss\<lparr>filesystem_change_seen := True\<rparr>" sys] k by simp
    with False assms show ?thesis
      by (simp add: TaskSession_close_def see_standard_output_def see_file_search_def
            see_filesystem_change_def update_filesystem_change_seen_def Let_def
            split: option.splits)
  qed
qed

text \<open>
  Claim C9, as stated, in a training phase whose two tasks differ in type. The first
  training task, of type \<open>stdout\<close>, gets the \<open>init\<close> tour; its task session is closed
  and the counter advanced to 1, the status still being \<open>training\<close>. The second training
  task is the very first training task of type \<open>file_search\<close>, and the flag of that type
  is unset: the tour returned is \<open>first_file_search\<close>, not the \<open>init\<close> tour of the type.
\<close>

theorem page_tour_first_of_type_counterexample:
  "page_tour training_task_session_1 training_started = Inr (Some ''init_standard_output'')
   \<and> get_study_session training_first_closed ''S2''
       = Some (session2\<lparr>standard_output_seen := True\<rparr>)
   \<and> status (fst training_second) = ''training''
   \<and> num_tasks_completed (fst training_second) = 1
   \<and> \<not> file_search_seen (fst training_second)
   \<and> get_study_session (snd training_second) ''S2'' = Some (fst training_second)
   \<and> is_training training_task_session_2
   \<and> task_type (task training_task_session_2) = ''file_search''
   \<and> page_tour training_task_session_2 (snd training_second)
       = Inr (Some ''first_file_search'')"
proof -
  have c: "training_first_closed =
     training_started\<lparr>study_session_rows := [session2\<lparr>standard_output_seen := True\<rparr>],
       task_session_rows := [training_task_session_1\<lparr>ts_end_time := 40, ts_status := ''passed''\<rparr>],
       docker_containers := {}, filesystems := {}\<rparr>"
    by (simp add: training_first_closed_def TaskSession_close_def see_standard_output_def
          see_file_search_def see_filesystem_change_def update_standard_output_seen_def
          StudySession_save_def TaskSession_save_def upsert_def Container_destroy_def
          docker_rm_def delete_filesystem_def get_study_session_def Let_def
          training_started_def training_task_session_1_def training_task_21_def
          Task_row_def session2_def StudySession_row_def box1_def)
  have s: "training_second =
     (session2\<lparr>standard_output_seen := True, num_tasks_completed := 1\<rparr>,
      training_started\<lparr>study_session_rows :=
          [session2\<lparr>standard_output_seen := True, num_tasks_completed := 1\<rparr>],
       task_session_rows := [training_task_session_1\<lparr>ts_end_time := 40, ts_status := ''passed''\<rparr>],
       docker_containers := {}, filesystems := {}\<rparr>)"
    unfolding training_second_def c
    by (simp add: inc_num_tasks_completed_def StudySession_save_def upsert_def Let_def
          training_started_def session2_def StudySession_row_def
          default_total_num_training_tasks_def TASK_TRAINING_def)
  have 1: "page_tour training_task_session_1 training_started = Inr (Some ''init_standard_output'')"
    by (simp add: page_tour_def tour_standard_output_def get_study_session_def Let_def
          training_started_def training_task_session_1_def training_task_21_def
          Task_row_def session2_def StudySession_row_def)
  have 2: "get_study_session training_first_closed ''S2''
       = Some (session2\<lparr>standard_output_seen := True\<rparr>)"
    unfolding c by (simp add: get_study_session_def session2_def StudySession_row_def)
  have 3: "status (fst training_second) = ''training''
     \<and> num_tasks_completed (fst training_second) = 1
     \<and> \<not> file_search_seen (fst training_second)"
    unfolding s by (simp add: session2_def StudySession_row_def)
  have 4: "get_study_session (snd training_second) ''S2'' = Some (fst training_second)"
    unfolding s by (simp add: get_study_session_def session2_def StudySession_row_def)
  have 5: "is_training training_task_session_2
     \<and> task_type (task training_task_session_2) = ''file_search''"
    by (simp add: training_task_session_2_def training_task_22_def Task_row_def)
  have 6: "page_tour training_task_session_2 (snd training_second)
       = Inr (Some ''first_file_search'')"
    unfolding s
    by (simp add: page_tour_def tour_file_search_def get_study_session_def Let_def
          training_task_session_2_def training_task_22_def Task_row_def session2_def
          StudySession_row_def)
  from 1 2 3 4 5 6 show ?thesis by (intro conjI) (elim conjE, assumption)+
qed

text \<open>
  Claim C9, amended. Let the task session's study session be in the repository. For each
  of the three task types: while the study session's seen-flag for the type is unset, the
  page tour is the \<open>init\<close> tour of the type on the very first training task of the
  study session (status \<open>training\<close>, no task completed yet) and the \<open>first\<close> tour of
  the type on any other task, be it a later training task or a scored task; once the flag
  is set, there is no tour. Closing a task session of one of the three types sets the
  flag of its type, so that afterwards no task session of the same study session and type
  gets a tour: the tour of a type is surfaced for at most one task session.
\<close>

theorem page_tour_once_per_type:
  assumes "get_study_session sys (study_session self) = Some ss"
  shows
  "(task_type (task self) = ''stdout'' \<and> \<not> standard_output_seen ss
        \<and> status ss = ''training'' \<and> num_tasks_completed ss = 0
      \<longrightarrow> page_tour self sys = Inr (Some ''init_standard_output''))
   \<and> (task_type (task self) = ''stdout'' \<and> \<not> standard_output_seen ss
        \<and> \<not> (status ss = ''training'' \<and> num_tasks_completed ss = 0)
      \<longrightarrow> page_tour self sys = Inr (Some ''first_standard_output''))
   \<and> (task_type (task self) = ''stdout'' \<and> standard_output_seen ss
      \<longrightarrow> page_tour self sys = Inr None)
   \<and> (task_type (task self) = ''file_search'' \<and> \<not> file_search_seen ss
        \<and> status ss = ''training'' \<and> num_tasks_completed ss = 0
      \<longrightarrow> page_tour self sys = Inr (Some ''init_file_search''))
   \<and> (task_type (task self) = ''file_search'' \<and> \<not> file_search_seen ss
        \<and> \<not> (status ss = ''training'' \<and> num_tasks_completed ss = 0)
      \<longrightarrow> page_tour self sys = Inr (Some ''first_file_search''))
   \<and> (task_type (task self) = ''file_search'' \<and> file_search_seen ss
      \<longrightarrow> page_tour self sys = Inr None)
   \<and> (task_type (task self) = ''filesystem_change'' \<and> \<not> filesystem_change_seen ss
        \<and> status ss = ''training'' \<and> num_tasks_completed ss = 0
      \<longrightarrow> page_tour self sys = Inr (Some ''init_filesystem_change''))
   \<and> (task_type (task self) = ''filesystem_change'' \<and> \<not> filesystem_change_seen ss
        \<and> \<not> (status ss = ''training'' \<and> num_tasks_completed ss = 0)
      \<longrightarrow> page_tour self sys = Inr (Some ''first_filesystem_change''))
   \<and> (task_type (task self) = ''filesystem_change'' \<and> filesystem_change_seen ss
      \<longrightarrow> page_tour self sys = Inr None)
   \<and> (task_type (task self) \<in> {''stdout'', ''file_search'', ''filesystem_change''}
        \<and> study_session other = study_session self
        \<and> task_type (task other) = task_type (task self)
      \<longrightarrow> page_tour other (snd (snd (TaskSession_close self reason now sys))) = Inr None)"
proof -
  have t1: "(task_type (task self) = ''stdout'' \<and> \<not> standard_output_seen ss
        \<and> status ss = ''training'' \<and> num_tasks_completed ss = 0
      \<longrightarrow> page_tour self sys = Inr (Some ''init_standard_output''))
   \<and> (task_type (task self) = ''stdout'' \<and> \<not> standard_output_seen ss
        \<and> \<not> (status ss = ''training'' \<and> num_tasks_completed ss = 0)
      \<longrightarrow> page_tour self sys = Inr (Some ''first_standard_output''))
   \<and> (task_type (task self) = ''stdout'' \<and> standard_output_seen ss
      \<longrightarrow> page_tour self sys = Inr None)"
    using assms by (simp add: page_tour_def Let_def tour_standard_output_def)
  have t2: "(task_type (task self) = ''file_search'' \<and> \<not> file_search_seen ss
        \<and> status ss = ''training'' \<and> num_tasks_completed ss = 0
      \<longrightarrow> page_tour self sys = Inr (Some ''init_file_search''))
   \<and> (task_type (task self) = ''file_search'' \<and> \<not> file_search_seen ss
        \<and> \<not> (status ss = ''training'' \<and> num_tasks_completed ss = 0)
      \<longrightarrow> page_tour self sys = Inr (Some ''first_file_search''))
   \<and> (task_type (task self) = ''file_search'' \<and> file_search_seen ss
      \<longrightarrow> page_tour self sys = Inr None)"
    using assms by (simp add: page_tour_def Let_def tour_file_search_def)
  have t3: "(task_type (task self) = ''filesystem_change'' \<and> \<not> filesystem_change_seen ss
        \<and> status ss = ''training'' \<and> num_tasks_completed ss = 0
      \<longrightarrow> page_tour self sys = Inr (Some ''init_filesystem_change''))
   \<and> (task_type (task self) = ''filesystem_change'' \<and> \<not> filesystem_change_seen ss
        \<and> \<not> (status ss = ''training'' \<and> num_tasks_completed ss = 0)
      \<longrightarrow> page_tour self sys = Inr (Some ''first_filesystem_change''))
   \<and> (task_type (task self) = ''filesystem_change'' \<and> filesystem_change_seen ss
      \<longrightarrow> page_tour self sys = Inr None)"
    using assms by (simp add: page_tour_def Let_def tour_filesystem_change_def)
  have after: "(task_type (task self) \<in> {''stdout'', ''file_search'', ''filesystem_change''}
        \<and> study_session other = study_session self
        \<and> task_type (task other) = task_type (task self)
      \<longrightarrow> page_tour other (snd (snd (TaskSession_close self reason now sys))) = Inr None)"
  proof (intro impI, elim conjE)
    assume ty: "task_type (task self) \<in> {''stdout'', ''file_search'', ''filesystem_change''}"
      and o1: "study_session other = study_session self"
      and o2: "task_type (task other) = task_type (task self)"
    from ty consider (a) "task_type (task self) = ''stdout''"
      | (b) "task_type (task self) = ''file_search''"
      | (c) "task_type (task self) = ''filesystem_change''" by auto
    then show "page_tour other (snd (snd (TaskSession_close self reason now sys))) = Inr None"
    proof cases
      case a
      from close_marks_standard_output [OF a assms, of reason now] a o1 o2 show ?thesis
        by (auto simp: page_tour_def Let_def tour_standard_output_def)
    next
      case b
      from close_marks_file_search [OF b assms, of reason now] b o1 o2 show ?thesis
        by (auto simp: page_tour_def Let_def tour_file_search_def)
    next
      case c
      from close_marks_filesystem_change [OF c assms, of reason now] c o1 o2 show ?thesis
        by (auto simp: page_tour_def Let_def tour_filesystem_change_def)
    qed
  qed
  from t1 t2 t3 after show ?thesis by (intro conjI) (elim conjE, assumption)+
qed

theorem page_tour_once_per_type_witness:
  "page_tour task_session2 system2 = Inr (Some ''init_file_search'')
   \<and> page_tour task_session1 system1 = Inr (Some ''first_standard_output'')
   \<and> page_tour task_session2 (snd (snd (TaskSession_close task_session2 ''passed'' 40 system2)))
       = Inr None
   \<and> page_tour task_session1 (snd (snd (TaskSession_close task_session1 ''passed'' 40 system1)))
       = Inr None"
proof -
  have g2: "get_study_session system2 (study_session task_session2) = Some session2"
    by (simp add: get_study_session_def system2_def task_session2_def session2_def
          StudySession_row_def)
  have g1: "get_study_session system1 (study_session task_session1) = Some session1"
    by (simp add: get_study_session_def system1_def task_session1_def session1_def
          StudySession_row_def)
  show ?thesis
    using page_tour_once_per_type [OF g2, of task_session2 "''passed''" 40]
          page_tour_once_per_type [OF g1, of task_session1 "''passed''" 40]
    by (simp add: task_session2_def task_session1_def session2_def session1_def
          StudySession_row_def search_task_def stdout_task_def Task_row_def)
qed

lemma see_steps_keep_task_sessions:
  "see_standard_output self sys = Inr sys' \<Longrightarrow> task_session_rows sys' = task_session_rows sys"
  "see_file_search self sys = Inr sys' \<Longrightarrow> task_session_rows sys' = task_session_rows sys"
  "see_filesystem_change self sys = Inr sys' \<Longrightarrow> task_session_rows sys' = task_session_rows sys"
  by (auto simp: see_standard_output_def see_file_search_def see_filesystem_change_def
        update_standard_output_seen_def update_file_search_seen_def
        update_filesystem_change_seen_def StudySession_save_def Let_def
        split: if_splits option.splits)

lemma see_steps_keep_study_session:
  assumes "get_study_session sys (study_session self) = Some ss"
  shows "\<exists>sys' ss'. see_standard_output self sys = Inr sys'
            \<and> get_study_session sys' (study_session self) = Some ss'"
    and "\<exists>sys' ss'. see_file_search self sys = Inr sys'
            \<and> get_study_session sys' (study_session self) = Some ss'"
    and "\<exists>sys' ss'. see_filesystem_change self sys = Inr sys'
            \<and> get_study_session sys' (study_session self) = Some ss'"
proof -
  have k: "session_id ss = study_session self"
    using assms by (rule get_study_session_key)
  have s: "get_study_session (StudySession_save r sys) (study_session self)
             = Some (r\<lparr>close_time := None\<rparr>)" if "session_id r = session_id ss" for r
    using get_study_session_saved [of r sys] that k by simp
  show "\<exists>sys' ss'. see_standard_output self sys = Inr sys'
            \<and> get_study_session sys' (study_session self) = Some ss'"
    using assms s [of "ss\<lparr>standard_output_seen := True\<rparr>"]
    by (simp add: see_standard_output_def update_standard_output_seen_def Let_def)
  show "\<exists>sys' ss'. see_file_search self sys = Inr sys'
            \<and> get_study_session sys' (study_session self) = Some ss'"
    using assms s [of "ss\<lparr>file_search_seen := True\<rparr>"]
    by (simp add: see_file_search_def update_file_search_seen_def Let_def)
  show "\<exists>sys' ss'. see_filesystem_change self sys = Inr sys'
            \<and> get_study_session sys' (study_session self) = Some ss'"
    using assms s [of "ss\<lparr>filesystem_change_seen := True\<rparr>"]
    by (simp add: see_filesystem_change_def update_filesystem_change_seen_def Let_def)
qed

text \<open>
  Claim C10. For every task session with no container bound, whose study session is in
  the repository: \<open>TaskSession_close\<close> raises \<^verbatim>\<open>AttributeError\<close> at
  \<^verbatim>\<open>self.container.destroy()\<close>; the status of the session object is unchanged and
  nothing is saved for the task session, so neither an end time nor a terminal status is
  recorded (the end time has been assigned on the object only); \<open>destroy_container\<close>
  raises the same error and changes nothing. A task session created by the views is
  created with no container bound.
\<close>

theorem TaskSession_close_needs_container:
  assumes "ts_container self = None"
    and "get_study_session sys (study_session self) = Some ss"
  shows "fst (TaskSession_close self reason now sys) = Some (AttributeError ''destroy'')
       \<and> ts_status (fst (snd (TaskSession_close self reason now sys))) = ts_status self
       \<and> ts_end_time (fst (snd (TaskSession_close self reason now sys))) = now
       \<and> task_session_rows (snd (snd (TaskSession_close self reason now sys)))
           = task_session_rows sys
       \<and> destroy_container self sys = (Some (AttributeError ''destroy''), self, sys)
       \<and> ts_container (fst (TaskSession_objects_create ss_id new_id tsk t st sys)) = None"
proof -
  obtain sys1 ss1 where 1: "see_standard_output self sys = Inr sys1"
      and g1: "get_study_session sys1 (study_session self) = Some ss1"
    using see_steps_keep_study_session(1) [OF assms(2)] by blast
  obtain sys2 ss2 where 2: "see_file_search self sys1 = Inr sys2"
      and g2: "get_study_session sys2 (study_session self) = Some ss2"
    using see_steps_keep_study_session(2) [OF g1] by blast
  obtain sys3 ss3 where 3: "see_filesystem_change self sys2 = Inr sys3"
    using see_steps_keep_study_session(3) [OF g2] by blast
  have rows: "task_session_rows sys3 = task_session_rows sys"
    using see_steps_keep_task_sessions(1) [OF 1] see_steps_keep_task_sessions(2) [OF 2]
          see_steps_keep_task_sessions(3) [OF 3] by simp
  have c: "TaskSession_close self reason now sys
             = (Some (AttributeError ''destroy''), self\<lparr>ts_end_time := now\<rparr>, sys3)"
    using assms(1) 1 2 3 by (simp add: TaskSession_close_def Let_def)
  have d: "destroy_container self sys = (Some (AttributeError ''destroy''), self, sys)"
    using assms(1) by (simp add: destroy_container_def)
  have n: "ts_container (fst (TaskSession_objects_create ss_id new_id tsk t st sys)) = None"
    by (simp add: TaskSession_objects_create_def Let_def)
  from c rows d n show ?thesis by simp
qed

theorem TaskSession_close_needs_container_witness:
  "fst (TaskSession_close task_session2 ''passed'' 40 system2) = Some (AttributeError ''destroy'')
   \<and> ts_status (fst (snd (TaskSession_close task_session2 ''passed'' 40 system2))) = ''running''
   \<and> task_session_rows (snd (snd (TaskSession_close task_session2 ''passed'' 40 system2)))
       = [task_session2]
   \<and> fst (destroy_container task_session2 system2) = Some (AttributeError ''destroy'')"
proof -
  have c: "ts_container task_session2 = None"
    by (simp add: task_session2_def)
  have g: "get_study_session system2 (study_session task_session2) = Some session2"
    by (simp add: get_study_session_def system2_def task_session2_def session2_def
          StudySession_row_def)
  show ?thesis
    using TaskSession_close_needs_container [OF c g, of "''passed''" 40]
    by (simp add: task_session2_def system2_def)
qed

section \<open>Sandbox binding\<close>

lemma Container_destroy_twice:
  "Container_destroy c (Container_destroy c sys) = Container_destroy c sys"
  by (simp add: Container_destroy_def docker_rm_def delete_filesystem_def)

lemma create_new_container_returns:
  assumes "create_new_container self reply sys = (None, self', sys')"
  shows "\<exists>p. ts_container self'
           = Some \<lparr>container_id = reply_container_id reply,
                   filesystem_name = ts_session_id self, port = p\<rparr>
         \<and> reply_host_port reply = Some p"
    and "docker_containers sys'
           = insert (reply_container_id reply)
               (case ts_container self of
                  None \<Rightarrow> docker_containers sys
                | Some c \<Rightarrow> docker_containers sys - {container_id c})"
    and "ts_session_id self' = ts_session_id self"
    and "ts_session_id self \<in> filesystems sys'"
  using assms
  by (auto simp: create_new_container_def create_container_def destroy_container_def
        Container_destroy_def docker_rm_def delete_filesystem_def make_filesystem_def
        docker_create_def TaskSession_save_def Let_def
        split: option.splits if_splits)

text \<open>
  Claim C7. Destroying a container twice leaves the system as destroying it once does.
  When \<open>create_new_container\<close> is called twice in a row on a task session and both
  calls return: the container bound by the first call is destroyed, and the binding
  cleared, before the second container is created; at the end the task session is bound
  to the second container, which exists together with its filesystem; and of the two
  containers provisioned for the task session exactly the second one exists.
\<close>

theorem one_live_sandbox_per_task_session:
  assumes first: "create_new_container self r1 sys = (None, self1, sys1)"
    and second: "create_new_container self1 r2 sys1 = (None, self2, sys2)"
  shows "Container_destroy c (Container_destroy c sys0) = Container_destroy c sys0
       \<and> (\<exists>c1. ts_container self1 = Some c1 \<and> container_id c1 = reply_container_id r1
             \<and> fst (snd (destroy_container self1 sys1)) = self1\<lparr>ts_container := None\<rparr>
             \<and> container_id c1 \<notin> docker_containers (snd (snd (destroy_container self1 sys1)))
             \<and> docker_containers sys2
                 = insert (reply_container_id r2)
                     (docker_containers (snd (snd (destroy_container self1 sys1)))))
       \<and> (\<exists>c2. ts_container self2 = Some c2 \<and> container_id c2 = reply_container_id r2
             \<and> filesystem_name c2 = ts_session_id self
             \<and> container_id c2 \<in> docker_containers sys2
             \<and> filesystem_name c2 \<in> filesystems sys2)
       \<and> docker_containers sys2 \<inter> {reply_container_id r1, reply_container_id r2}
           = {reply_container_id r2}"
proof -
  from create_new_container_returns(1) [OF first] obtain p1 where
    c1: "ts_container self1 = Some \<lparr>container_id = reply_container_id r1,
                                    filesystem_name = ts_session_id self, port = p1\<rparr>"
    by blast
  from create_new_container_returns(1) [OF second] obtain p2 where
    c2: "ts_container self2 = Some \<lparr>container_id = reply_container_id r2,
                                    filesystem_name = ts_session_id self1, port = p2\<rparr>"
    by blast
  have id1: "ts_session_id self1 = ts_session_id self"
    by (rule create_new_container_returns(3) [OF first])
  have d2: "docker_containers sys2
              = insert (reply_container_id r2) (docker_containers sys1 - {reply_container_id r1})"
    using create_new_container_returns(2) [OF second] c1 by simp
  have fs2: "ts_session_id self \<in> filesystems sys2"
    using create_new_container_returns(4) [OF second] id1 by simp
  have dc: "destroy_container self1 sys1
              = (None, self1\<lparr>ts_container := None\<rparr>,
                 Container_destroy \<lparr>container_id = reply_container_id r1,
                     filesystem_name = ts_session_id self, port = p1\<rparr> sys1)"
    using c1 by (simp add: destroy_container_def)
  have dd: "docker_containers (snd (snd (destroy_container self1 sys1)))
              = docker_containers sys1 - {reply_container_id r1}"
    using dc by (simp add: Container_destroy_def docker_rm_def delete_filesystem_def)
  have a: "Container_destroy c (Container_destroy c sys0) = Container_destroy c sys0"
    by (rule Container_destroy_twice)
  have b: "\<exists>c1. ts_container self1 = Some c1 \<and> container_id c1 = reply_container_id r1
             \<and> fst (snd (destroy_container self1 sys1)) = self1\<lparr>ts_container := None\<rparr>
             \<and> container_id c1 \<notin> docker_containers (snd (snd (destroy_container self1 sys1)))
             \<and> docker_containers sys2
                 = insert (reply_container_id r2)
                     (docker_containers (snd (snd (destroy_container self1 sys1))))"
    using c1 dc dd d2 by simp
  have e: "\<exists>c2. ts_container self2 = Some c2 \<and> container_id c2 = reply_container_id r2
             \<and> filesystem_name c2 = ts_session_id self
             \<and> container_id c2 \<in> docker_containers sys2
             \<and> filesystem_name c2 \<in> filesystems sys2"
    using c2 id1 d2 fs2 by simp
  have f: "docker_containers sys2 \<inter> {reply_container_id r1, reply_container_id r2}
           = {reply_container_id r2}"
    using d2 by auto
  from a b e f show ?thesis by blast
qed

theorem one_live_sandbox_per_task_session_witness:
  "fst (create_new_container task_session2 reply1 system2) = None
   \<and> fst (create_new_container
            (fst (snd (create_new_container task_session2 reply1 system2))) reply2
            (snd (snd (create_new_container task_session2 reply1 system2)))) = None
   \<and> docker_containers (snd (snd (create_new_container
            (fst (snd (create_new_container task_session2 reply1 system2))) reply2
            (snd (snd (create_new_container task_session2 reply1 system2))))))
        \<inter> {''c7'', ''c8''} = {''c8''}"
proof -
  let ?r1 = "create_new_container task_session2 reply1 system2"
  let ?r2 = "create_new_container (fst (snd ?r1)) reply2 (snd (snd ?r1))"
  have v1: "?r1 = (None,
      task_session2\<lparr>ts_container := Some \<lparr>container_id = ''c7'',
         filesystem_name = ''S2-training-task-1'', port = 40000\<rparr>\<rparr>,
      system2\<lparr>task_session_rows := [task_session2\<lparr>ts_container := Some \<lparr>container_id = ''c7'',
         filesystem_name = ''S2-training-task-1'', port = 40000\<rparr>\<rparr>],
        container_rows := [\<lparr>container_id = ''c7'',
         filesystem_name = ''S2-training-task-1'', port = 40000\<rparr>],
        docker_containers := {''c7''}, filesystems := {''S2-training-task-1''}\<rparr>)"
    by (simp add: create_new_container_def create_container_def make_filesystem_def
          docker_create_def TaskSession_save_def upsert_def Let_def task_session2_def
          system2_def reply1_def search_task_def Task_row_def)
  have e1: "fst ?r1 = None"
    by (simp only: v1 fst_conv)
  have e2: "fst ?r2 = None"
    apply (simp only: v1 fst_conv snd_conv)
    by (simp add: create_new_container_def create_container_def destroy_container_def
          Container_destroy_def docker_rm_def delete_filesystem_def make_filesystem_def
          docker_create_def TaskSession_save_def upsert_def Let_def task_session2_def
          system2_def reply2_def search_task_def Task_row_def)
  have first: "?r1 = (None, fst (snd ?r1), snd (snd ?r1))"
    using e1 by (metis prod.collapse)
  have second: "?r2 = (None, fst (snd ?r2), snd (snd ?r2))"
    using e2 by (metis prod.collapse)
  show ?thesis
    using one_live_sandbox_per_task_session [OF first second] e1 e2
    by (simp add: reply1_def reply2_def)
qed

section \<open>The completion check\<close>

lemma py_in_sublist: "py_in sub s = sublist sub s"
  by (induction s) (auto simp: sublist_Cons_right)

lemma split_lines_not_Nil [simp]: "split_lines s \<noteq> []"
  by (induction s) (auto split: list.splits)

lemma length_split_lines: "length (split_lines s) = Suc (count_list s (CHR 0x0A))"
  by (induction s) (auto split: list.splits)

lemma get_study_session_action_rows [simp]:
  "get_study_session (sys\<lparr>action_rows := a\<rparr>) k = get_study_session sys k"
  by (simp add: get_study_session_def)

text \<open>
  Claim C1. What the completion check of \<open>on_command_execution\<close> decides, for a task
  session whose study session carries a container and whose task carries a goal. For a
  \<open>stdout\<close> task with at least two output lines, the task is completed exactly when the
  goal occurs in the last-but-one line. For the two filesystem types that the data model
  documents, \<open>file_search\<close> and \<open>filesystem_change\<close>, the check raises the error meant
  for unrecognized types whatever the diff says: the labels it compares with are
  \<open>filesearch\<close> and \<open>filesystem\<close>, and for those the task is completed exactly when the
  diff reports no differences. Every other type raises that error.
\<close>

theorem on_command_execution_by_type:
  assumes "get_study_session sys (study_session task_session) = Some ss"
    and "container ss = Some c"
    and "goal (task task_session) = Some g"
  shows "(task_type (task task_session) = ''stdout'' \<and> 2 \<le> length (split_lines out)
            \<longrightarrow> fst (on_command_execution task_session out diff_tag now sys)
                  = Inr (if py_in g (split_lines out ! (length (split_lines out) - 2))
                         then ''TASK_COMPLETED'' else ''SUCCESS''))
       \<and> (task_type (task task_session) \<in> {''file_search'', ''filesystem_change''}
            \<longrightarrow> fst (on_command_execution task_session out diff_tag now sys)
                  = Inl (AttributeError ''Unrecognized task type''))
       \<and> (task_type (task task_session) \<in> {''filesearch'', ''filesystem''}
            \<longrightarrow> fst (on_command_execution task_session out diff_tag now sys)
                  = Inr (if \<not> diff_tag then ''TASK_COMPLETED'' else ''SUCCESS''))
       \<and> (task_type (task task_session) \<notin> {''stdout'', ''filesearch'', ''filesystem''}
            \<longrightarrow> fst (on_command_execution task_session out diff_tag now sys)
                  = Inl (AttributeError ''Unrecognized task type''))"
proof -
  have a: "task_type (task task_session) = ''stdout'' \<and> 2 \<le> length (split_lines out)
            \<longrightarrow> fst (on_command_execution task_session out diff_tag now sys)
                  = Inr (if py_in g (split_lines out ! (length (split_lines out) - 2))
                         then ''TASK_COMPLETED'' else ''SUCCESS'')"
    using assms by (simp add: on_command_execution_def Let_def last_but_one_def)
  have b: "task_type (task task_session) \<in> {''file_search'', ''filesystem_change''}
            \<longrightarrow> fst (on_command_execution task_session out diff_tag now sys)
                  = Inl (AttributeError ''Unrecognized task type'')"
    using assms by (auto simp: on_command_execution_def Let_def)
  have c: "task_type (task task_session) \<in> {''filesearch'', ''filesystem''}
            \<longrightarrow> fst (on_command_execution task_session out diff_tag now sys)
                  = Inr (if \<not> diff_tag then ''TASK_COMPLETED'' else ''SUCCESS'')"
    using assms by (auto simp: on_command_execution_def Let_def)
  have d: "task_type (task task_session) \<notin> {''stdout'', ''filesearch'', ''filesystem''}
            \<longrightarrow> fst (on_command_execution task_session out diff_tag now sys)
                  = Inl (AttributeError ''Unrecognized task type'')"
    using assms by (simp add: on_command_execution_def Let_def)
  from a b c d show ?thesis by (intro conjI)
qed

theorem on_command_execution_by_type_witness:
  "fst (on_command_execution task_session3 terminal_output False 50 system1)
     = Inl (AttributeError ''Unrecognized task type'')
   \<and> fst (on_command_execution task_session1 terminal_output True 50 system1)
     = Inr ''TASK_COMPLETED''"
proof -
  have g: "get_study_session system1 (study_session task_session1) = Some session1"
    by (simp add: get_study_session_def system1_def task_session1_def session1_def
          StudySession_row_def)
  have g3: "get_study_session system1 (study_session task_session3) = Some session1"
    using g by (simp add: task_session3_def)
  have c: "container session1 = Some box1"
    by (simp add: session1_def StudySession_row_def)
  have t3: "goal (task task_session3) = Some ''{}''"
    by (simp add: task_session3_def search_task_def Task_row_def)
  have t1: "goal (task task_session1) = Some ''done''"
    by (simp add: task_session1_def stdout_task_def Task_row_def)
  have ty3: "task_type (task task_session3) = ''file_search''"
    by (simp add: task_session3_def search_task_def Task_row_def)
  have ty1: "task_type (task task_session1) = ''stdout''"
    by (simp add: task_session1_def stdout_task_def Task_row_def)
  have lines: "split_lines terminal_output = [''cat log'', ''all done'', ''me@box:~$ '']"
    by (simp add: terminal_output_def)
  show ?thesis
    using on_command_execution_by_type [OF g3 c t3, of terminal_output False 50]
          on_command_execution_by_type [OF g c t1, of terminal_output True 50]
    by (simp add: ty3 ty1 lines)
qed

section \<open>The first scored task\<close>

lemma Task_objects_get_id: "Task_objects_get sys tid = Inr t \<Longrightarrow> task_id t = tid"
proof -
  assume a: "Task_objects_get sys tid = Inr t"
  then have "filter (\<lambda>t. task_id t = tid) (task_rows sys) = [t]"
    by (auto simp: Task_objects_get_def split: list.splits)
  then have "t \<in> set (filter (\<lambda>t. task_id t = tid) (task_rows sys))"
    by simp
  then show ?thesis by simp
qed

text \<open>
  Claim C2. \<open>pick_task\<close> takes the completed count only. For a participant of group 1
  and a participant of group 3, whose task block orders differ, the first task session of
  a new study session gets the same task: the head of block I, task 5 (provided the
  repository holds exactly one task with that identifier). For every participant the
  task at count \<open>n\<close> is the \<open>n\<close>-th of block I below 9, the \<open>(n - 9)\<close>-th of block II
  from 9 to 17, and an \<^verbatim>\<open>IndexError\<close> from 18 on.
\<close>

theorem first_scored_task_ignores_group:
  assumes "group (user s1) = ''group1''"
    and "group (user s3) = ''group3''"
    and "Task_objects_get sys (hd TASK_BLOCK_I) = Inr t"
  shows "task_block_order s1 = ''0'' \<and> task_block_order s3 = ''1''
       \<and> pick_task_id 0 = Inr (hd TASK_BLOCK_I)
       \<and> task_id t = 5
       \<and> (\<exists>row. fst (first_task_session s1 id1 now1 sys) = Inr row \<and> task row = t)
       \<and> (\<exists>row. fst (first_task_session s3 id3 now3 sys) = Inr row \<and> task row = t)
       \<and> (n < 9 \<longrightarrow> pick_task_id n = Inr (TASK_BLOCK_I ! n))
       \<and> (9 \<le> n \<and> n < 18 \<longrightarrow> pick_task_id n = Inr (TASK_BLOCK_II ! (n - 9)))
       \<and> (18 \<le> n \<longrightarrow> pick_task_id n = Inl IndexError)"
proof -
  have len: "length TASK_BLOCK_I = 9" "length TASK_BLOCK_II = 9"
    by (simp_all add: TASK_BLOCK_I_def TASK_BLOCK_II_def)
  have q: "(n < 9 \<longrightarrow> pick_task_id n = Inr (TASK_BLOCK_I ! n))
       \<and> (9 \<le> n \<and> n < 18 \<longrightarrow> pick_task_id n = Inr (TASK_BLOCK_II ! (n - 9)))
       \<and> (18 \<le> n \<longrightarrow> pick_task_id n = Inl IndexError)"
    by (auto simp: pick_task_id_def len)
  have o: "task_block_order s1 = ''0'' \<and> task_block_order s3 = ''1''"
    using assms(1,2) by (simp add: task_block_order_def)
  have p: "pick_task_id 0 = Inr (hd TASK_BLOCK_I)"
    by (simp add: pick_task_id_def TASK_BLOCK_I_def)
  have i: "task_id t = 5"
    using Task_objects_get_id [OF assms(3)] by (simp add: TASK_BLOCK_I_def)
  have pt: "pick_task sys 0 = Inr t"
    using p assms(3) by (simp add: pick_task_def)
  have f: "\<exists>row. fst (first_task_session s i n sys) = Inr row \<and> task row = t" for s i n
    using pt by (simp add: first_task_session_def TaskSession_objects_create_def Let_def)
  from o p i f q show ?thesis by blast
qed

theorem first_scored_task_ignores_group_witness:
  "task_block_order session1 = ''0'' \<and> task_block_order session2 = ''1''
   \<and> (\<exists>row. fst (first_task_session session1 ''S1/task-1'' 10 system1) = Inr row
          \<and> task row = stdout_task)
   \<and> (\<exists>row. fst (first_task_session session2 ''S2/task-1'' 30 system1) = Inr row
          \<and> task row = stdout_task)"
proof -
  have g1: "group (user session1) = ''group1''"
    by (simp add: session1_def StudySession_row_def alice_def)
  have g3: "group (user session2) = ''group3''"
    by (simp add: session2_def StudySession_row_def carol_def)
  have t: "Task_objects_get system1 (hd TASK_BLOCK_I) = Inr stdout_task"
    by (simp add: Task_objects_get_def system1_def TASK_BLOCK_I_def stdout_task_def
          search_task_def Task_row_def)
  show ?thesis
    using first_scored_task_ignores_group [OF g1 g3 t, of "''S1/task-1''" 10 "''S2/task-1''" 30 0]
    by simp
qed

section \<open>Resuming a participant\<close>

lemma get_task_session_StudySession_save [simp]:
  "get_task_session (StudySession_save r sys) k = get_task_session sys k"
  by (simp add: get_task_session_def StudySession_save_def)

lemma running_sessions_loaded:
  "s \<in> set (running_sessions u sys)
     \<Longrightarrow> status s = ''running'' \<and> user s = u \<and> container s = None"
  by (auto simp: running_sessions_def)

lemma close_study_session_unbound:
  assumes "status s = ''running''" and "container s = None"
  shows "close_study_session s reason sys
           = (Some (AttributeError ''container''),
              s\<lparr>current_task_session_id := '''', status := reason\<rparr>,
              StudySession_save (s\<lparr>current_task_session_id := '''', status := reason\<rparr>) sys)"
  using assms by (simp add: close_study_session_def Let_def)

lemma check_sessions_healthy_prefix:
  assumes "\<forall>h\<in>set pre. \<exists>t. get_task_session sys (current_task_session_id h) = Some t
                 \<and> (ts_status t = ''running'' \<or> ts_status t = ''paused'')"
  shows "check_sessions (pre @ xs) acc sys = check_sessions xs (acc @ pre) sys"
  using assms
proof (induction pre arbitrary: acc)
  case Nil
  then show ?case by simp
next
  case (Cons h pre)
  from Cons.prems obtain t where
    t: "get_task_session sys (current_task_session_id h) = Some t"
       "ts_status t = ''running'' \<or> ts_status t = ''paused''"
    by auto
  have "check_sessions ((h # pre) @ xs) acc sys = check_sessions (pre @ xs) (acc @ [h]) sys"
    using t by auto
  also have "\<dots> = check_sessions xs ((acc @ [h]) @ pre) sys"
    using Cons.IH [of "acc @ [h]"] Cons.prems by simp
  finally show ?case by simp
qed

lemma check_sessions_stale_head:
  assumes "status s = ''running''" and "container s = None"
    and "get_task_session sys (current_task_session_id s) = None
         \<or> (\<exists>t. get_task_session sys (current_task_session_id s) = Some t
               \<and> ts_status t \<noteq> ''running'' \<and> ts_status t \<noteq> ''paused'')"
  shows "check_sessions (s # rest) acc sys
           = (Inl (AttributeError ''container''),
              StudySession_save
                (s\<lparr>current_task_session_id := '''', status := ''closed_with_error''\<rparr>) sys)"
  using assms(3) close_study_session_unbound [OF assms(1,2), of "''closed_with_error''" sys]
  by auto

text \<open>
  Claim C6. What the resumption does when the participant has a running study session
  whose current task session is missing from the repository or is neither \<open>running\<close>
  nor \<open>paused\<close>. Let \<open>s\<close> be the first such session in order of creation, every
  running session created before it having a current task session that is \<open>running\<close> or
  \<open>paused\<close>. The first loop passes over the earlier sessions and calls
  \<open>close_study_session\<close> on \<open>s\<close>, which saves the row of \<open>s\<close> with status
  \<open>closed_with_error\<close> and its pointer cleared, and then raises \<^verbatim>\<open>AttributeError\<close> at
  \<^verbatim>\<open>session.container.destroy()\<close>: a study session has no container. Nothing catches
  that exception, so the resumption ends with it and returns no session; no other row is
  changed and no container or filesystem is removed. With two running sessions of which
  only the later one is healthy, this is the scenario of the claim.
\<close>

theorem resumption_raises_closing_stale_session:
  assumes sessions: "running_sessions u sys = pre @ s # rest"
    and healthy: "\<forall>h\<in>set pre. \<exists>t. get_task_session sys (current_task_session_id h) = Some t
                      \<and> (ts_status t = ''running'' \<or> ts_status t = ''paused'')"
    and stale: "get_task_session sys (current_task_session_id s) = None
              \<or> (\<exists>t. get_task_session sys (current_task_session_id s) = Some t
                    \<and> ts_status t \<noteq> ''running'' \<and> ts_status t \<noteq> ''paused'')"
  shows "check_existing_session u sys
           = (Inl (AttributeError ''container''),
              StudySession_save
                (s\<lparr>current_task_session_id := '''', status := ''closed_with_error''\<rparr>) sys)
       \<and> get_study_session (snd (check_existing_session u sys)) (session_id s)
           = Some (s\<lparr>current_task_session_id := '''', status := ''closed_with_error'',
                      close_time := None\<rparr>)
       \<and> (\<forall>k. k \<noteq> session_id s
             \<longrightarrow> get_study_session (snd (check_existing_session u sys)) k
                   = get_study_session sys k)
       \<and> docker_containers (snd (check_existing_session u sys)) = docker_containers sys
       \<and> filesystems (snd (check_existing_session u sys)) = filesystems sys"
proof -
  let ?s' = "s\<lparr>current_task_session_id := '''', status := ''closed_with_error''\<rparr>"
  have mem: "s \<in> set (running_sessions u sys)"
    using sessions by simp
  have st: "status s = ''running''" and un: "container s = None"
    using running_sessions_loaded [OF mem] by simp_all
  have "check_sessions (pre @ s # rest) [] sys = check_sessions (s # rest) ([] @ pre) sys"
    by (rule check_sessions_healthy_prefix [OF healthy])
  also have "\<dots> = (Inl (AttributeError ''container''), StudySession_save ?s' sys)"
    by (rule check_sessions_stale_head [OF st un stale])
  finally have res: "check_existing_session u sys
           = (Inl (AttributeError ''container''), StudySession_save ?s' sys)"
    using sessions by (simp add: check_existing_session_def)
  have a: "get_study_session (StudySession_save ?s' sys) (session_id s)
             = Some (?s'\<lparr>close_time := None\<rparr>)"
    using get_study_session_saved [of ?s' sys] by simp
  have b: "\<forall>k. k \<noteq> session_id s
             \<longrightarrow> get_study_session (StudySession_save ?s' sys) k = get_study_session sys k"
    using find_upsert_other [of _ session_id "?s'\<lparr>close_time := None\<rparr>" "study_session_rows sys"]
    by (simp add: get_study_session_def StudySession_save_def)
  have c: "docker_containers (StudySession_save ?s' sys) = docker_containers sys
         \<and> filesystems (StudySession_save ?s' sys) = filesystems sys"
    by (simp add: StudySession_save_def)
  from res a b c show ?thesis by simp
qed

theorem resumption_raises_closing_stale_session_witness:
  "fst (check_existing_session alice system3) = Inl (AttributeError ''container'')
   \<and> get_study_session (snd (check_existing_session alice system3)) ''A1''
       = Some (stale_session\<lparr>current_task_session_id := '''', status := ''closed_with_error''\<rparr>)
   \<and> get_study_session (snd (check_existing_session alice system3)) ''A2'' = Some live_session
   \<and> fst (check_existing_session alice system4) = Inl (AttributeError ''container'')
   \<and> get_study_session (snd (check_existing_session alice system4)) ''A3''
       = Some (late_stale_session\<lparr>current_task_session_id := '''',
                 status := ''closed_with_error''\<rparr>)
   \<and> get_study_session (snd (check_existing_session alice system4)) ''A2'' = Some live_session"
proof -
  have r3: "running_sessions alice system3 = [] @ stale_session # [live_session]"
    by (simp add: running_sessions_def system3_def stale_session_def live_session_def
          StudySession_row_def)
  have r4: "running_sessions alice system4 = [live_session] @ late_stale_session # []"
    by (simp add: running_sessions_def system4_def system3_def late_stale_session_def
          live_session_def StudySession_row_def)
  have h3: "\<forall>h\<in>set []. \<exists>t. get_task_session system3 (current_task_session_id h) = Some t
                      \<and> (ts_status t = ''running'' \<or> ts_status t = ''paused'')"
    by simp
  have h4: "\<forall>h\<in>set [live_session].
              \<exists>t. get_task_session system4 (current_task_session_id h) = Some t
                      \<and> (ts_status t = ''running'' \<or> ts_status t = ''paused'')"
    by (simp add: get_task_session_def system4_def system3_def live_session_def
          StudySession_row_def live_task_session_def)
  have s3: "get_task_session system3 (current_task_session_id stale_session) = None
              \<or> (\<exists>t. get_task_session system3 (current_task_session_id stale_session) = Some t
                    \<and> ts_status t \<noteq> ''running'' \<and> ts_status t \<noteq> ''paused'')"
    by (simp add: get_task_session_def system3_def stale_session_def StudySession_row_def
          live_task_session_def)
  have s4: "get_task_session system4 (current_task_session_id late_stale_session) = None
              \<or> (\<exists>t. get_task_session system4 (current_task_session_id late_stale_session)
                        = Some t
                    \<and> ts_status t \<noteq> ''running'' \<and> ts_status t \<noteq> ''paused'')"
    by (simp add: get_task_session_def system4_def system3_def late_stale_session_def
          StudySession_row_def live_task_session_def)
  have g3: "get_study_session system3 ''A2'' = Some live_session"
    by (simp add: get_study_session_def system3_def live_session_def StudySession_row_def)
  have g4: "get_study_session system4 ''A2'' = Some live_session"
    by (simp add: get_study_session_def system4_def system3_def live_session_def
          late_stale_session_def StudySession_row_def)
  note t3 = resumption_raises_closing_stale_session [OF r3 h3 s3]
  note t4 = resumption_raises_closing_stale_session [OF r4 h4 s4]
  have k3: "session_id stale_session = ''A1''" and k4: "session_id late_stale_session = ''A3''"
    by (simp_all add: stale_session_def late_stale_session_def StudySession_row_def)
  have c3: "close_time stale_session = None" and c4: "close_time late_stale_session = None"
    by (simp_all add: stale_session_def late_stale_session_def StudySession_row_def)
  have a3: "get_study_session (snd (check_existing_session alice system3)) ''A2''
              = Some live_session"
    using t3 [THEN conjunct2, THEN conjunct2, THEN conjunct1, rule_format, of "''A2''"] g3
    by (simp add: k3)
  have a4: "get_study_session (snd (check_existing_session alice system4)) ''A2''
              = Some live_session"
    using t4 [THEN conjunct2, THEN conjunct2, THEN conjunct1, rule_format, of "''A2''"] g4
    by (simp add: k4)
  have b3: "get_study_session (snd (check_existing_session alice system3)) ''A1''
       = Some (stale_session\<lparr>current_task_session_id := [], status := ''closed_with_error''\<rparr>)"
    using t3 [THEN conjunct2, THEN conjunct1] c3 by (simp add: k3)
  have b4: "get_study_session (snd (check_existing_session alice system4)) ''A3''
       = Some (late_stale_session\<lparr>current_task_session_id := [],
                 status := ''closed_with_error''\<rparr>)"
    using t4 [THEN conjunct2, THEN conjunct1] c4 by (simp add: k4)
  have e3: "fst (check_existing_session alice system3) = Inl (AttributeError ''container'')"
    using t3 [THEN conjunct1] by simp
  have e4: "fst (check_existing_session alice system4) = Inl (AttributeError ''container'')"
    using t4 [THEN conjunct1] by simp
  from e3 b3 a3 e4 b4 a4 show ?thesis by (intro conjI)
qed

text \<open>
  The remaining cases of the resumption: a single running session whose task session is
  healthy is returned, with nothing changed; with no running session the flag
  \<^verbatim>\<open>no_existing_session\<close> is set; and with two or more running sessions that are all
  healthy the second loop closes the earliest one and raises in the same way.
\<close>

lemma resumption_returns_single_healthy_session:
  assumes "running_sessions u sys = [s]"
    and "get_task_session sys (current_task_session_id s) = Some t"
    and "ts_status t = ''running'' \<or> ts_status t = ''paused''"
  shows "check_existing_session u sys
           = (Inr (RUNNING_STUDY_SESSION_FOUND (session_id s) (current_task_session_id s)), sys)"
  using assms by (auto simp: check_existing_session_def)

lemma resumption_without_running_session:
  assumes "running_sessions u sys = []"
  shows "check_existing_session u sys = (Inr NO_EXISTING_SESSION, sys)"
  using assms by (simp add: check_existing_session_def)

lemma resumption_raises_closing_earlier_healthy_session:
  assumes sessions: "running_sessions u sys = s1 # s2 # rest"
    and healthy: "\<forall>h\<in>set (s1 # s2 # rest).
                    \<exists>t. get_task_session sys (current_task_session_id h) = Some t
                      \<and> (ts_status t = ''running'' \<or> ts_status t = ''paused'')"
  shows "check_existing_session u sys
           = (Inl (AttributeError ''container''),
              StudySession_save
                (s1\<lparr>current_task_session_id := '''', status := ''closed_with_error''\<rparr>) sys)"
proof -
  have mem: "s1 \<in> set (running_sessions u sys)"
    using sessions by simp
  have st: "status s1 = ''running''" and un: "container s1 = None"
    using running_sessions_loaded [OF mem] by simp_all
  have "check_sessions ((s1 # s2 # rest) @ []) [] sys = check_sessions [] ([] @ s1 # s2 # rest) sys"
    by (rule check_sessions_healthy_prefix [OF healthy])
  then have loop: "check_sessions (s1 # s2 # rest) [] sys = (Inr (s1 # s2 # rest), sys)"
    by simp
  have "close_sessions (butlast (s1 # s2 # rest)) sys
          = (Some (AttributeError ''container''),
             StudySession_save
               (s1\<lparr>current_task_session_id := '''', status := ''closed_with_error''\<rparr>) sys)"
    using close_study_session_unbound [OF st un, of "''closed_with_error''" sys] by simp
  with loop sessions show ?thesis
    by (simp add: check_existing_session_def)
qed

end
